theory Spec2Isabelle
  imports Complex_Main "HOL-Library.Product_Lexorder"
begin

section \<open>Python values and string helpers\<close>

text \<open>
  The request bodies and the token payload are JSON objects whose fields are typed
  \<^verbatim>\<open>Any\<close> in the source. They are modelled by the values below (JSON numbers with a
  fraction are left out). A character is a code point below 256.
\<close>

datatype pyval =
    PNone
  | PBool bool
  | PInt int
  | PStr string
  | PList "pyval list"
  | PDict "(string \<times> pyval) list"

text \<open>Python's truth value of an object, as \<^verbatim>\<open>if x:\<close> and \<^verbatim>\<open>x or y\<close> read it.\<close>

fun truthy :: "pyval \<Rightarrow> bool" where
  "truthy PNone = False"
| "truthy (PBool b) = b"
| "truthy (PInt i) = (i \<noteq> 0)"
| "truthy (PStr s) = (s \<noteq> [])"
| "truthy (PList xs) = (xs \<noteq> [])"
| "truthy (PDict kvs) = (kvs \<noteq> [])"

text \<open>Lists and dicts cannot be dictionary keys: hashing them raises \<^verbatim>\<open>TypeError\<close>.\<close>

fun hashable :: "pyval \<Rightarrow> bool" where
  "hashable (PList xs) = False"
| "hashable (PDict kvs) = False"
| "hashable v = True"

text \<open>\<^verbatim>\<open>d.get(k)\<close> on a JSON object: the value, or \<^verbatim>\<open>None\<close> when the key is absent.\<close>

definition dict_get :: "(string \<times> pyval) list \<Rightarrow> string \<Rightarrow> pyval" where
  "dict_get d k = (case map_of d k of None \<Rightarrow> PNone | Some v \<Rightarrow> v)"

text \<open>
  \<^verbatim>\<open>str.strip()\<close> removes the characters for which \<^verbatim>\<open>str.isspace()\<close> holds; below 256
  these are the code points 9 to 13, 28 to 32, 133 and 160.
\<close>

definition is_space :: "char \<Rightarrow> bool" where
  "is_space c = (let n = (of_char c :: nat) in
     (9 \<le> n \<and> n \<le> 13) \<or> (28 \<le> n \<and> n \<le> 32) \<or> n = 133 \<or> n = 160)"

definition lstrip :: "string \<Rightarrow> string" where
  "lstrip s = dropWhile is_space s"

definition rstrip :: "string \<Rightarrow> string" where
  "rstrip s = rev (dropWhile is_space (rev s))"

definition strip :: "string \<Rightarrow> string" where
  "strip s = rstrip (lstrip s)"

text \<open>\<^verbatim>\<open>str.lower()\<close> on code points below 256: A to Z, and 192 to 222 without 215.\<close>

definition lower_char :: "char \<Rightarrow> char" where
  "lower_char c = (let n = (of_char c :: nat) in
     if (65 \<le> n \<and> n \<le> 90) \<or> (192 \<le> n \<and> n \<le> 222 \<and> n \<noteq> 215)
     then char_of (n + 32) else c)"

definition lower :: "string \<Rightarrow> string" where
  "lower s = map lower_char s"

definition startswith :: "string \<Rightarrow> string \<Rightarrow> bool" where
  "startswith s p = (take (length p) s = p)"

section \<open>Errors\<close>

text \<open>
  Every exception that leaves a handler is a value. \<open>HTTPException\<close> carries the status
  code and the detail; the others are exceptions the handlers do not turn into an
  \<open>HTTPException\<close> (the framework answers them with a generic status 500).
\<close>

datatype error =
    HTTPException int string
  | TypeError string
  | KeyError string
  | AttributeError string
  | UndefinedTable string
  | DatabaseError string
  | SqliteOperationalError string

section \<open>auth.py: credential registry and tenant context\<close>

record creds =
  iotDbUrl :: string
  userDbUrl :: string

text \<open>
  The module globals \<^verbatim>\<open>_user_credentials\<close>, \<^verbatim>\<open>_uuid_to_int\<close> and \<^verbatim>\<open>_int_counter\<close>.
\<close>

record auth_state =
  user_credentials :: "string \<rightharpoonup> creds"
  uuid_to_int :: "string \<rightharpoonup> int"
  int_counter :: int

definition auth_init :: auth_state where
  "auth_init = \<lparr> user_credentials = Map.empty, uuid_to_int = Map.empty, int_counter = 1 \<rparr>"

definition stable_user_id :: "string \<Rightarrow> auth_state \<Rightarrow> int \<times> auth_state" where
  "stable_user_id uuid_str s =
     (let s1 = (if uuid_to_int s uuid_str = None
                then s\<lparr> uuid_to_int := (uuid_to_int s)(uuid_str \<mapsto> int_counter s),
                        int_counter := int_counter s + 1 \<rparr>
                else s)
      in (the (uuid_to_int s1 uuid_str), s1))"

definition is_app_connect_enabled :: "string \<Rightarrow> bool" where
  "is_app_connect_enabled JWT_SECRET = (length JWT_SECRET \<ge> 32)"

text \<open>
  \<^verbatim>\<open>jwt.decode\<close> and \<^verbatim>\<open>jwt.encode\<close> belong to a library: they are parameters. A decoder takes
  the token and the secret and gives the payload, or \<open>None\<close> where the library raises
  \<^verbatim>\<open>PyJWTError\<close> (bad signature, expired, malformed).
\<close>

type_synonym payload = "(string \<times> pyval) list"
type_synonym jwt_decoder = "string \<Rightarrow> string \<Rightarrow> payload option"
type_synonym jwt_encoder = "payload \<Rightarrow> string \<Rightarrow> string"

definition JWT_EXPIRATION_HOURS :: int where
  "JWT_EXPIRATION_HOURS = 24"

definition create_token :: "jwt_encoder \<Rightarrow> string \<Rightarrow> int \<Rightarrow> string \<Rightarrow> string \<Rightarrow> string \<Rightarrow> string" where
  "create_token jwt_encode JWT_SECRET now user_id email role =
     jwt_encode
       [(''userId'', PStr user_id), (''email'', PStr email), (''role'', PStr role),
        (''iat'', PInt now), (''exp'', PInt (now + JWT_EXPIRATION_HOURS * 3600))]
       JWT_SECRET"

definition verify_token :: "jwt_decoder \<Rightarrow> string \<Rightarrow> string \<Rightarrow> payload option" where
  "verify_token jwt_decode JWT_SECRET token = jwt_decode token JWT_SECRET"

definition store_credentials :: "string \<Rightarrow> string \<Rightarrow> string \<Rightarrow> auth_state \<Rightarrow> auth_state" where
  "store_credentials user_id iot_db_url user_db_url s =
     s\<lparr> user_credentials :=
          (user_credentials s)(user_id \<mapsto> \<lparr> iotDbUrl = iot_db_url, userDbUrl = user_db_url \<rparr>) \<rparr>"

text \<open>
  \<^verbatim>\<open>_user_credentials.get(user_id)\<close>: the keys are strings, so another hashable value finds
  nothing, and a list or a dict raises.
\<close>

fun get_credentials :: "pyval \<Rightarrow> auth_state \<Rightarrow> error + creds option" where
  "get_credentials (PStr u) s = Inr (user_credentials s u)"
| "get_credentials (PList xs) s = Inl (TypeError ''unhashable type: list'')"
| "get_credentials (PDict kvs) s = Inl (TypeError ''unhashable type: dict'')"
| "get_credentials v s = Inr None"

record RequestContext =
  dsn :: string
  app_state_dsn :: "string option"
  user_id :: int

record request =
  headers :: "string \<rightharpoonup> string"

text \<open>\<^verbatim>\<open>a or b\<close> on two optional strings: the first when it is neither \<^verbatim>\<open>None\<close> nor empty.\<close>

definition or_else :: "string option \<Rightarrow> string option \<Rightarrow> string option" where
  "or_else a b = (case a of Some s \<Rightarrow> (if s \<noteq> [] then Some s else b) | None \<Rightarrow> b)"

definition bearer_token :: "request \<Rightarrow> string option" where
  "bearer_token req =
     (case or_else (headers req ''authorization'') (headers req ''Authorization'') of
        None \<Rightarrow> None
      | Some auth_header \<Rightarrow>
          (if auth_header \<noteq> [] \<and> startswith auth_header ''Bearer ''
           then Some (strip (drop 7 auth_header)) else None))"

definition auth_required :: error where
  "auth_required =
     HTTPException 401 ''Authentication required. Use Navixy to open this application.''"

text \<open>
  The first block of \<^verbatim>\<open>get_request_context\<close>: the context of a verified token whose
  \<^verbatim>\<open>userId\<close> has stored credentials. \<open>Inr None\<close> is falling through to the code below it.
  The stored credentials are a dict with both keys, hence truthy.
\<close>

definition token_context ::
  "jwt_decoder \<Rightarrow> string \<Rightarrow> string \<Rightarrow> auth_state \<Rightarrow> (error + RequestContext option) \<times> auth_state" where
  "token_context jwt_decode JWT_SECRET token s =
     (case verify_token jwt_decode JWT_SECRET token of
        None \<Rightarrow> (Inr None, s)
      | Some payload \<Rightarrow>
          (if payload = [] then (Inr None, s)
           else
             (let uid_str = dict_get payload ''userId'' in
              case (if truthy uid_str then get_credentials uid_str s else Inr None) of
                Inl e \<Rightarrow> (Inl e, s)
              | Inr None \<Rightarrow> (Inr None, s)
              | Inr (Some c) \<Rightarrow>
                  (case uid_str of
                     PStr u \<Rightarrow>
                       (let (internal_uid, s') = stable_user_id u s
                        in (Inr (Some \<lparr> dsn = iotDbUrl c, app_state_dsn = Some (userDbUrl c),
                                         user_id = internal_uid \<rparr>), s'))
                   | _ \<Rightarrow> (Inr None, s)))))"

definition fallback_context ::
  "string option \<Rightarrow> int option \<Rightarrow> int \<Rightarrow> string \<Rightarrow> RequestContext" where
  "fallback_context x_sensoriqua_dsn user_id_query default_user_id default_dsn =
     \<lparr> dsn = (case x_sensoriqua_dsn of
                None \<Rightarrow> default_dsn
              | Some h \<Rightarrow> (if h \<noteq> [] \<and> strip h \<noteq> [] then strip h else default_dsn)),
       app_state_dsn = None,
       user_id = (case user_id_query of None \<Rightarrow> default_user_id | Some q \<Rightarrow> q) \<rparr>"

definition get_request_context ::
  "jwt_decoder \<Rightarrow> string \<Rightarrow> request \<Rightarrow> string option \<Rightarrow> int option \<Rightarrow> int \<Rightarrow> string
     \<Rightarrow> auth_state \<Rightarrow> (error + RequestContext) \<times> auth_state" where
  "get_request_context jwt_decode JWT_SECRET req x_sensoriqua_dsn user_id_query
       default_user_id default_dsn s =
     (let token = bearer_token req;
          first = (case token of
                     Some t \<Rightarrow>
                       (if t \<noteq> [] \<and> is_app_connect_enabled JWT_SECRET
                        then token_context jwt_decode JWT_SECRET t s else (Inr None, s))
                   | None \<Rightarrow> (Inr None, s))
      in case first of
           (Inl e, s') \<Rightarrow> (Inl e, s')
         | (Inr (Some ctx), s') \<Rightarrow> (Inr ctx, s')
         | (Inr None, s') \<Rightarrow>
             (if is_app_connect_enabled JWT_SECRET then (Inl auth_required, s')
              else (Inr (fallback_context x_sensoriqua_dsn user_id_query
                           default_user_id default_dsn), s')))"

section \<open>Configuration\<close>

text \<open>
  The module constants read from the environment when the modules load:
  \<^verbatim>\<open>JWT_SECRET\<close> (auth.py, already stripped), \<^verbatim>\<open>DEFAULT_DSN\<close> and \<^verbatim>\<open>APP_STATE_DSN\<close>
  (db.py, the latter stripped), \<^verbatim>\<open>DEFAULT_USER_ID\<close> and \<^verbatim>\<open>ALLOW_PRIVATE_DSN\<close> (main.py).
\<close>

record config =
  JWT_SECRET :: string
  DEFAULT_DSN :: string
  DEFAULT_USER_ID :: int
  APP_STATE_DSN :: string
  ALLOW_PRIVATE_DSN :: bool

definition request_context ::
  "jwt_decoder \<Rightarrow> config \<Rightarrow> request \<Rightarrow> string option \<Rightarrow> int option \<Rightarrow> auth_state
     \<Rightarrow> (error + RequestContext) \<times> auth_state" where
  "request_context jwt_decode cfg req x_sensoriqua_dsn user_id_q s =
     get_request_context jwt_decode (JWT_SECRET cfg) req x_sensoriqua_dsn user_id_q
       (DEFAULT_USER_ID cfg) (DEFAULT_DSN cfg) s"

section \<open>main.py: the login endpoint\<close>

record AuthLoginRequest =
  lr_email :: string
  lr_iotDbUrl :: string
  lr_userDbUrl :: string
  lr_role :: string

record login_response =
  resp_user_id :: string
  resp_email :: string
  resp_role :: string
  resp_token :: string

text \<open>
  \<^verbatim>\<open>urlparse\<close> is a library function: a parameter giving the scheme and the host name of
  a URL, or \<open>None\<close> where it raises.
\<close>

type_synonym url_parser = "string \<Rightarrow> (string \<times> string option) option"

definition is_digit :: "char \<Rightarrow> bool" where
  "is_digit c = (let n = (of_char c :: nat) in 48 \<le> n \<and> n \<le> 57)"

text \<open>
  \<^verbatim>\<open>_PRIVATE_HOST_PATTERN.match(host)\<close>: the pattern is anchored at the start and ignores
  case.
\<close>

definition private_host :: "string \<Rightarrow> bool" where
  "private_host host =
     (let h = lower host in
        startswith h ''localhost'' \<or> startswith h ''127.'' \<or> startswith h ''10.''
      \<or> (startswith h ''172.'' \<and>
           (case drop 4 h of
              a # b # c # rest \<Rightarrow>
                c = CHR ''.'' \<and>
                ((a = CHR ''1'' \<and> b \<in> set ''6789'') \<or> (a = CHR ''2'' \<and> is_digit b)
                 \<or> (a = CHR ''3'' \<and> b \<in> set ''01''))
            | _ \<Rightarrow> False))
      \<or> startswith h ''192.168.'' \<or> startswith h ''169.254.'' \<or> startswith h ''::1'')"

definition validate_dsn_for_login :: "url_parser \<Rightarrow> bool \<Rightarrow> string \<Rightarrow> string \<Rightarrow> error option" where
  "validate_dsn_for_login urlparse allow_private d name =
     (if d = [] \<or> strip d = [] then Some (HTTPException 400 (name @ '' is required''))
      else case urlparse (strip d) of
             None \<Rightarrow> Some (HTTPException 400 (''Invalid '' @ name))
           | Some (scheme0, hostname) \<Rightarrow>
               (let scheme = lower scheme0 in
                if scheme \<noteq> ''postgresql'' \<and> scheme \<noteq> ''postgres''
                then Some (HTTPException 400
                       (name @ '' must be a PostgreSQL URL (postgresql:// or postgres://)''))
                else if \<not> allow_private
                then (let host = strip (case hostname of None \<Rightarrow> [] | Some hn \<Rightarrow> hn) in
                      if host \<noteq> [] \<and> private_host host
                      then Some (HTTPException 400
                             (name @ '' must not point to localhost or private network''))
                      else None)
                else None))"

definition login_not_configured :: error where
  "login_not_configured =
     HTTPException 501
       ''Navixy App Connect not configured (set JWT_SECRET with at least 32 characters)''"

text \<open>
  \<^verbatim>\<open>auth_login\<close>. \<open>new_uuid\<close> is the value of \<^verbatim>\<open>str(uuid.uuid4())\<close> and \<open>now\<close> that of
  \<^verbatim>\<open>int(time.time())\<close>.
\<close>

definition auth_login ::
  "jwt_encoder \<Rightarrow> url_parser \<Rightarrow> config \<Rightarrow> string \<Rightarrow> int \<Rightarrow> AuthLoginRequest \<Rightarrow> auth_state
     \<Rightarrow> (error + login_response) \<times> auth_state" where
  "auth_login jwt_encode urlparse cfg new_uuid now body s =
     (if \<not> is_app_connect_enabled (JWT_SECRET cfg) then (Inl login_not_configured, s)
      else if lr_email body = [] \<or> lr_iotDbUrl body = [] \<or> lr_userDbUrl body = []
      then (Inl (HTTPException 400 ''Missing required fields: email, iotDbUrl, userDbUrl''), s)
      else case validate_dsn_for_login urlparse (ALLOW_PRIVATE_DSN cfg) (lr_iotDbUrl body) ''iotDbUrl'' of
             Some e \<Rightarrow> (Inl e, s)
           | None \<Rightarrow>
          (case validate_dsn_for_login urlparse (ALLOW_PRIVATE_DSN cfg) (lr_userDbUrl body) ''userDbUrl'' of
             Some e \<Rightarrow> (Inl e, s)
           | None \<Rightarrow>
               (let s' = store_credentials new_uuid (lr_iotDbUrl body) (lr_userDbUrl body) s;
                    role = (if lr_role body \<noteq> [] then lr_role body else ''admin'');
                    token = create_token jwt_encode (JWT_SECRET cfg) now new_uuid (lr_email body) role
                in (Inr \<lparr> resp_user_id = new_uuid, resp_email = lr_email body,
                          resp_role = role, resp_token = token \<rparr>, s'))))"

section \<open>db.py: the application-state store\<close>

datatype backend = Postgres | Sqlite

text \<open>
  Modelled from the spec: the relational schema of the application state is created by
  the SQL files of \<^verbatim>\<open>migrations/\<close>, which are not among the sources. The rows below have
  the fields the specification lists for a configured sensor and a dashboard plane, which
  are also the columns the statements of main.py name; the SQLite tables of
  \<^verbatim>\<open>_SQLITE_SCHEMA\<close> have the same columns except \<^verbatim>\<open>multiplier\<close>.

  The two tables of the application state. \<open>None\<close> for a table means that it does not
  exist in the database. \<open>objects\<close> is \<^verbatim>\<open>raw_business_data.objects\<close> (object id to label), which
  the handlers read beside the application state. Timestamps are natural numbers;
  \<open>cfg_seq\<close> and \<open>dp_seq\<close> are the last numbers the two id sequences gave out.
\<close>

record cfg_row =
  configured_sensor_id :: int
  cs_user_id :: int
  object_id :: int
  device_id :: int
  sensor_input_label :: string
  sensor_source :: string
  sensor_id :: "int option"
  sensor_label_custom :: string
  min_threshold :: "real option"
  max_threshold :: "real option"
  multiplier :: "real option"
  is_active :: bool
  created_at :: nat
  updated_at :: nat

record dp_row =
  dashboard_plane_id :: int
  dp_user_id :: int
  dp_configured_sensor_id :: int
  position_index :: int
  dp_created_at :: nat

record tables =
  configured_sensors :: "cfg_row list option"
  dashboard_planes :: "dp_row list option"
  cfg_seq :: int
  dp_seq :: int
  objects :: "(int \<rightharpoonup> string) option"

text \<open>
  The databases a handler can open: PostgreSQL databases by connection string, SQLite
  files by their path below the backend directory, as pathlib writes it. A path names a
  database file or nothing yet; other directories, \<^verbatim>\<open>..\<close> and links are not modelled.
\<close>

record world =
  pg_dbs :: "string \<rightharpoonup> tables"
  sqlite_files :: "string \<rightharpoonup> tables"

text \<open>An open connection: its kind, where it writes on commit, and its working copy.\<close>

record conn =
  conn_backend :: backend
  conn_key :: string
  conn_tables :: tables

definition DEFAULT_APP_STATE_PATH :: string where
  "DEFAULT_APP_STATE_PATH = ''sensoriqua_state.db''"

definition use_sqlite_app_state :: "config \<Rightarrow> bool" where
  "use_sqlite_app_state cfg =
     (if APP_STATE_DSN cfg = [] then False
      else (let l = lower (APP_STATE_DSN cfg) in startswith l ''sqlite:'' \<or> startswith l ''file:''))"

definition lstrip_slash :: "string \<Rightarrow> string" where
  "lstrip_slash s = dropWhile (\<lambda>c. c = CHR ''/'') s"

text \<open>
  \<^verbatim>\<open>Path(s)\<close> as pathlib writes a relative POSIX path: the components between slashes
  without the empty ones and without \<^verbatim>\<open>.\<close>, joined by single slashes (\<^verbatim>\<open>..\<close> is kept).
  The empty result stands for \<^verbatim>\<open>Path(".")\<close>.
\<close>

fun split_path :: "string \<Rightarrow> string list" where
  "split_path [] = [[]]"
| "split_path (c # cs) =
     (if c = CHR ''/'' then [] # split_path cs
      else (case split_path cs of
              [] \<Rightarrow> [[c]]
            | p # ps \<Rightarrow> (c # p) # ps))"

fun join_path :: "string list \<Rightarrow> string" where
  "join_path [] = []"
| "join_path [p] = p"
| "join_path (p # q # ps) = p @ ''/'' @ join_path (q # ps)"

definition Path :: "string \<Rightarrow> string" where
  "Path s = join_path (filter (\<lambda>p. p \<noteq> [] \<and> p \<noteq> ''.'') (split_path s))"

text \<open>
  \<^verbatim>\<open>_sqlite_path\<close>. After \<^verbatim>\<open>lstrip("/")\<close> the path is relative, and a value that keeps its
  prefix starts with a letter, so the path is always taken below the backend directory;
  the result is the path below that directory.
\<close>

definition sqlite_path :: "config \<Rightarrow> string option" where
  "sqlite_path cfg =
     (if \<not> use_sqlite_app_state cfg then None
      else (let s0 = APP_STATE_DSN cfg;
                s = (if startswith s0 ''file:'' then lstrip_slash (drop 5 s0)
                     else if startswith s0 ''sqlite:'' then lstrip_slash (drop 7 s0)
                     else s0)
            in if s = [] \<or> s = '':memory:'' then None else Some (Path s)))"

definition get_conn :: "world \<Rightarrow> string \<Rightarrow> error + tables" where
  "get_conn w d =
     (case pg_dbs w d of
        None \<Rightarrow> Inl (DatabaseError ''connection failed'')
      | Some t \<Rightarrow> Inr t)"

text \<open>
  \<^verbatim>\<open>_open_sqlite_app_state\<close>: the file is created when missing, and the schema script
  creates each table that does not exist yet. The empty path is the backend directory
  itself, which \<^verbatim>\<open>sqlite3.connect\<close> cannot open.
\<close>

definition open_sqlite_app_state :: "world \<Rightarrow> string \<Rightarrow> (error + conn) \<times> world" where
  "open_sqlite_app_state w path =
     (if path = [] then (Inl (SqliteOperationalError ''unable to open database file''), w)
      else
       (let t0 = (case sqlite_files w path of
                    None \<Rightarrow> \<lparr> configured_sensors = None, dashboard_planes = None,
                               cfg_seq = 0, dp_seq = 0, objects = None \<rparr>
                  | Some t \<Rightarrow> t);
            t1 = t0\<lparr> configured_sensors :=
                        (case configured_sensors t0 of None \<Rightarrow> Some [] | Some rows \<Rightarrow> Some rows),
                      dashboard_planes :=
                        (case dashboard_planes t0 of None \<Rightarrow> Some [] | Some rows \<Rightarrow> Some rows) \<rparr>
        in (Inr \<lparr> conn_backend = Sqlite, conn_key = path, conn_tables = t1 \<rparr>,
            w\<lparr> sqlite_files := (sqlite_files w)(path \<mapsto> t1) \<rparr>)))"

definition get_app_state_conn :: "config \<Rightarrow> world \<Rightarrow> string option \<Rightarrow> (error + conn) \<times> world" where
  "get_app_state_conn cfg w override_dsn =
     (case (case override_dsn of None \<Rightarrow> None | Some d \<Rightarrow> (if d \<noteq> [] then Some d else None)) of
        Some d \<Rightarrow>
          (case get_conn w d of
             Inl e \<Rightarrow> (Inl e, w)
           | Inr t \<Rightarrow> (Inr \<lparr> conn_backend = Postgres, conn_key = d, conn_tables = t \<rparr>, w))
      | None \<Rightarrow>
          (if use_sqlite_app_state cfg
           then (case sqlite_path cfg of
                   Some p \<Rightarrow> open_sqlite_app_state w p
                 | None \<Rightarrow> open_sqlite_app_state w DEFAULT_APP_STATE_PATH)
           else open_sqlite_app_state w DEFAULT_APP_STATE_PATH))"

definition commit :: "conn \<Rightarrow> world \<Rightarrow> world" where
  "commit c w =
     (case conn_backend c of
        Postgres \<Rightarrow> w\<lparr> pg_dbs := (pg_dbs w)(conn_key c \<mapsto> conn_tables c) \<rparr>
      | Sqlite \<Rightarrow> w\<lparr> sqlite_files := (sqlite_files w)(conn_key c \<mapsto> conn_tables c) \<rparr>)"

definition app_state_uses_sqlite :: "config \<Rightarrow> bool" where
  "app_state_uses_sqlite cfg = (use_sqlite_app_state cfg \<or> APP_STATE_DSN cfg = [])"

text \<open>
  \<^verbatim>\<open>app_state_table\<close> reads the context variable \<^verbatim>\<open>_app_state_schema\<close>, whose default is
  \<^verbatim>\<open>"postgres"\<close>. \<^verbatim>\<open>get_app_state_conn\<close> sets the variable when its \<^verbatim>\<open>with\<close> block is
  entered and resets it when the block is left. Every handler of main.py calls
  \<^verbatim>\<open>app_state_table\<close> before it enters that block, so the call reads the default.
\<close>

definition app_state_schema_default :: string where
  "app_state_schema_default = ''postgres''"

definition app_state_table :: "string \<Rightarrow> string \<Rightarrow> string" where
  "app_state_table schema name =
     (if schema = ''sqlite'' then name else ''app_sensoriqua.'' @ name)"

subsection \<open>Statements\<close>

text \<open>
  What the database does with the statements of the handlers. A PostgreSQL database
  holds the two tables in the schema \<^verbatim>\<open>app_sensoriqua\<close>; the SQLite file holds them under
  their bare names, as \<^verbatim>\<open>_SQLITE_SCHEMA\<close> creates them. A statement on a name the database
  does not have raises \<^verbatim>\<open>psycopg.errors.UndefinedTable\<close>, or \<^verbatim>\<open>sqlite3.OperationalError\<close>
  (the messages are written without the quotation marks around the name).
  The tables have the columns the statements name, so \<^verbatim>\<open>UndefinedColumn\<close> is never raised
  and the handlers' fallback for it is left out.
\<close>

definition table_name :: "backend \<Rightarrow> string \<Rightarrow> string" where
  "table_name b name = (case b of Postgres \<Rightarrow> ''app_sensoriqua.'' @ name | Sqlite \<Rightarrow> name)"

definition no_table :: "backend \<Rightarrow> string \<Rightarrow> error" where
  "no_table b name =
     (case b of
        Postgres \<Rightarrow> UndefinedTable (''relation '' @ name @ '' does not exist'')
      | Sqlite \<Rightarrow> SqliteOperationalError (''no such table: '' @ name))"

definition cfg_rows :: "conn \<Rightarrow> string \<Rightarrow> error + cfg_row list" where
  "cfg_rows c name =
     (if name = table_name (conn_backend c) ''configured_sensors''
      then (case configured_sensors (conn_tables c) of
              None \<Rightarrow> Inl (no_table (conn_backend c) name)
            | Some rows \<Rightarrow> Inr rows)
      else Inl (no_table (conn_backend c) name))"

definition dp_rows :: "conn \<Rightarrow> string \<Rightarrow> error + dp_row list" where
  "dp_rows c name =
     (if name = table_name (conn_backend c) ''dashboard_planes''
      then (case dashboard_planes (conn_tables c) of
              None \<Rightarrow> Inl (no_table (conn_backend c) name)
            | Some rows \<Rightarrow> Inr rows)
      else Inl (no_table (conn_backend c) name))"

definition objects_of :: "tables \<Rightarrow> error + (int \<rightharpoonup> string)" where
  "objects_of t =
     (case objects t of
        None \<Rightarrow> Inl (UndefinedTable ''relation raw_business_data.objects does not exist'')
      | Some labels \<Rightarrow> Inr labels)"

text \<open>
  Modelled from the spec: the active flag of the relational schema is a boolean column
  (the handlers write \<^verbatim>\<open>False\<close> into it and compare it with \<^verbatim>\<open>true\<close>; its declaration is
  in \<^verbatim>\<open>migrations/\<close>). This is the comparison \<^verbatim>\<open>is_active = 1\<close> or \<^verbatim>\<open>is_active = true\<close>:
  PostgreSQL has no operator comparing a boolean with an integer; SQLite takes both.
\<close>

definition is_active_test :: "backend \<Rightarrow> string \<Rightarrow> error option" where
  "is_active_test b lit =
     (if b = Postgres \<and> lit = ''1''
      then Some (DatabaseError ''operator does not exist: boolean = integer'')
      else None)"

definition newest_first :: "cfg_row list \<Rightarrow> cfg_row list" where
  "newest_first rows = rev (sort_key created_at rows)"

definition error_text :: "error \<Rightarrow> string" where
  "error_text e =
     (case e of
        HTTPException code detail \<Rightarrow> detail
      | TypeError m \<Rightarrow> m | KeyError m \<Rightarrow> m | AttributeError m \<Rightarrow> m
      | UndefinedTable m \<Rightarrow> m | DatabaseError m \<Rightarrow> m | SqliteOperationalError m \<Rightarrow> m)"

text \<open>\<^verbatim>\<open>p in s\<close> on strings.\<close>

fun contains :: "string \<Rightarrow> string \<Rightarrow> bool" where
  "contains [] p = (p = [])"
| "contains (c # cs) p = (startswith (c # cs) p \<or> contains cs p)"

section \<open>main.py: configured sensors\<close>

record ConfiguredSensorCreate =
  csc_object_id :: int
  csc_device_id :: int
  csc_sensor_input_label :: string
  csc_sensor_source :: string
  csc_sensor_id :: "int option"
  csc_sensor_label_custom :: string
  csc_min_threshold :: "real option"
  csc_max_threshold :: "real option"
  csc_multiplier :: "real option"

text \<open>
  A field of the update body is unset (\<open>None\<close>), or set to a value or to null. Reading
  the attribute of an unset field gives its default \<^verbatim>\<open>None\<close>; \<^verbatim>\<open>model_dump(exclude_unset=True)\<close>
  holds the fields that are set.
\<close>

record ConfiguredSensorUpdate =
  csu_sensor_label_custom :: "string option option"
  csu_min_threshold :: "real option option"
  csu_max_threshold :: "real option option"
  csu_multiplier :: "real option option"

definition attr :: "'a option option \<Rightarrow> 'a option" where
  "attr f = (case f of None \<Rightarrow> None | Some v \<Rightarrow> v)"

text \<open>
  The threshold check of create and update:
  \<^verbatim>\<open>min is not None and max is not None and min >= max\<close>. Thresholds are real numbers here
  (the source has floats, compared by their order).
\<close>

definition min_not_below_max :: "real option \<Rightarrow> real option \<Rightarrow> bool" where
  "min_not_below_max mn mx =
     (case mn of None \<Rightarrow> False | Some a \<Rightarrow> (case mx of None \<Rightarrow> False | Some b \<Rightarrow> a \<ge> b))"

definition min_max_error :: error where
  "min_max_error = HTTPException 400 ''MIN must be less than MAX''"

definition normalize_source :: "string \<Rightarrow> string" where
  "normalize_source raw =
     (let src = lower (strip (if raw \<noteq> [] then raw else ''input''))
      in if src \<noteq> ''input'' \<and> src \<noteq> ''state'' \<and> src \<noteq> ''tracking'' then ''input'' else src)"

text \<open>\<^verbatim>\<open>except psycopg.errors.UndefinedTable: return []\<close> around the list handlers.\<close>

definition empty_on_undefined_table :: "error + 'a list \<Rightarrow> error + 'a list" where
  "empty_on_undefined_table r =
     (case r of
        Inl (UndefinedTable m) \<Rightarrow> Inr []
      | _ \<Rightarrow> r)"

definition list_configured_sensors ::
  "config \<Rightarrow> world \<Rightarrow> RequestContext \<Rightarrow> (error + (cfg_row \<times> string option) list) \<times> world" where
  "list_configured_sensors cfg w ctx =
     (let uid = user_id ctx;
          d = dsn ctx;
          cfg_t = app_state_table app_state_schema_default ''configured_sensors'';
          use_sqlite = (app_state_dsn ctx = None \<and> app_state_uses_sqlite cfg)
      in case get_app_state_conn cfg w (app_state_dsn ctx) of
           (Inl e, w1) \<Rightarrow> (empty_on_undefined_table (Inl e), w1)
         | (Inr c, w1) \<Rightarrow>
             (empty_on_undefined_table
               (case cfg_rows c cfg_t of
                  Inl e \<Rightarrow> Inl e
                | Inr rows \<Rightarrow>
                    (let sel = newest_first (filter (\<lambda>r. cs_user_id r = uid \<and> is_active r) rows)
                     in if use_sqlite
                        then (if sel = [] then Inr []
                              else case get_conn w1 d of
                                     Inl e \<Rightarrow> Inl e
                                   | Inr t \<Rightarrow>
                                       (case objects_of t of
                                          Inl e \<Rightarrow> Inl e
                                        | Inr labels \<Rightarrow>
                                            Inr (map (\<lambda>r. (r, labels (object_id r))) sel)))
                        else (case objects_of (conn_tables c) of
                                Inl e \<Rightarrow> Inl e
                              | Inr labels \<Rightarrow>
                                  Inr (List.map_filter
                                        (\<lambda>r. case labels (object_id r) of
                                               None \<Rightarrow> None
                                             | Some l \<Rightarrow> Some (r, Some l)) sel)))), w1))"

text \<open>The \<^verbatim>\<open>INSERT ... RETURNING\<close> of \<^verbatim>\<open>add_configured_sensor\<close>; it always returns its row.\<close>

definition insert_configured_sensor ::
  "conn \<Rightarrow> string \<Rightarrow> nat \<Rightarrow> int \<Rightarrow> ConfiguredSensorCreate \<Rightarrow> string \<Rightarrow> error + (cfg_row \<times> conn)" where
  "insert_configured_sensor c name now uid body source =
     (case cfg_rows c name of
        Inl e \<Rightarrow> Inl e
      | Inr rows \<Rightarrow>
          (let t = conn_tables c;
               new_id = cfg_seq t + 1;
               row = \<lparr> configured_sensor_id = new_id, cs_user_id = uid,
                       object_id = csc_object_id body, device_id = csc_device_id body,
                       sensor_input_label = csc_sensor_input_label body, sensor_source = source,
                       sensor_id = csc_sensor_id body,
                       sensor_label_custom = csc_sensor_label_custom body,
                       min_threshold = csc_min_threshold body,
                       max_threshold = csc_max_threshold body,
                       multiplier = csc_multiplier body, is_active = True,
                       created_at = now, updated_at = now \<rparr>
           in Inr (row, c\<lparr> conn_tables :=
                             t\<lparr> configured_sensors := Some (rows @ [row]), cfg_seq := new_id \<rparr> \<rparr>)))"

definition store_not_initialized :: error where
  "store_not_initialized =
     HTTPException 503
       (''Configured sensors table not found. Add to backend/.env: '' @
        ''SENSORIQUA_APP_STATE_DSN=sqlite:///./sensoriqua_state.db to use local storage '' @
        ''without DB migrations (no app_sensoriqua schema required).'')"

text \<open>The \<^verbatim>\<open>except\<close> clauses of \<^verbatim>\<open>add_configured_sensor\<close>, in their order.\<close>

definition add_sensor_except :: "error \<Rightarrow> error" where
  "add_sensor_except e =
     (case e of
        HTTPException code detail \<Rightarrow> e
      | UndefinedTable m \<Rightarrow>
          (if contains m ''configured_sensors'' \<or> contains m ''app_sensoriqua''
           then store_not_initialized else HTTPException 500 m)
      | _ \<Rightarrow> HTTPException 500 (error_text e))"

definition add_configured_sensor ::
  "config \<Rightarrow> nat \<Rightarrow> world \<Rightarrow> ConfiguredSensorCreate \<Rightarrow> RequestContext
     \<Rightarrow> (error + (cfg_row \<times> string option)) \<times> world" where
  "add_configured_sensor cfg now w body ctx =
     (let uid = user_id ctx in
      if min_not_below_max (csc_min_threshold body) (csc_max_threshold body)
      then (Inl min_max_error, w)
      else
        (let d = dsn ctx;
             source = normalize_source (csc_sensor_source body);
             cfg_t = app_state_table app_state_schema_default ''configured_sensors''
         in case get_app_state_conn cfg w (app_state_dsn ctx) of
              (Inl e, w1) \<Rightarrow> (Inl (add_sensor_except e), w1)
            | (Inr c, w1) \<Rightarrow>
                (case insert_configured_sensor c cfg_t now uid body source of
                   Inl e \<Rightarrow> (Inl (add_sensor_except e), w1)
                 | Inr (row, c') \<Rightarrow>
                     (let w2 = commit c' w1
                      in case get_conn w2 d of
                           Inl e \<Rightarrow> (Inl (add_sensor_except e), w2)
                         | Inr t \<Rightarrow>
                             (case objects_of t of
                                Inl e \<Rightarrow> (Inl (add_sensor_except e), w2)
                              | Inr labels \<Rightarrow> (Inr (row, labels (csc_object_id body)), w2))))))"

text \<open>
  The \<^verbatim>\<open>UPDATE ... WHERE configured_sensor_id = %s AND user_id = %s\<close> built from the fields
  that are set, with the number of rows it changed. The label column is \<^verbatim>\<open>NOT NULL\<close>.
\<close>

definition update_sensor_rows ::
  "conn \<Rightarrow> string \<Rightarrow> nat \<Rightarrow> int \<Rightarrow> int \<Rightarrow> ConfiguredSensorUpdate \<Rightarrow> error + (nat \<times> conn)" where
  "update_sensor_rows c name now sid uid body =
     (case cfg_rows c name of
        Inl e \<Rightarrow> Inl e
      | Inr rows \<Rightarrow>
          (let hit = (\<lambda>r. configured_sensor_id r = sid \<and> cs_user_id r = uid);
               rowcount = length (filter hit rows);
               upd = (\<lambda>r. r\<lparr> sensor_label_custom :=
                                (case csu_sensor_label_custom body of
                                   Some (Some l) \<Rightarrow> l | _ \<Rightarrow> sensor_label_custom r),
                              min_threshold :=
                                (case csu_min_threshold body of
                                   Some v \<Rightarrow> v | None \<Rightarrow> min_threshold r),
                              max_threshold :=
                                (case csu_max_threshold body of
                                   Some v \<Rightarrow> v | None \<Rightarrow> max_threshold r),
                              multiplier :=
                                (case csu_multiplier body of
                                   Some v \<Rightarrow> v | None \<Rightarrow> multiplier r),
                              updated_at := now \<rparr>)
           in if rowcount \<noteq> 0 \<and> csu_sensor_label_custom body = Some None
              then Inl (DatabaseError ''null value in column sensor_label_custom'')
              else Inr (rowcount,
                        c\<lparr> conn_tables := (conn_tables c)
                             \<lparr> configured_sensors :=
                                 Some (map (\<lambda>r. if hit r then upd r else r) rows) \<rparr> \<rparr>)))"

definition update_configured_sensor ::
  "config \<Rightarrow> nat \<Rightarrow> world \<Rightarrow> int \<Rightarrow> ConfiguredSensorUpdate \<Rightarrow> RequestContext
     \<Rightarrow> (error + unit) \<times> world" where
  "update_configured_sensor cfg now w sid body ctx =
     (let uid = user_id ctx in
      if min_not_below_max (attr (csu_min_threshold body)) (attr (csu_max_threshold body))
      then (Inl min_max_error, w)
      else
        (let cfg_t = app_state_table app_state_schema_default ''configured_sensors''
         in case get_app_state_conn cfg w (app_state_dsn ctx) of
              (Inl e, w1) \<Rightarrow> (Inl e, w1)
            | (Inr c, w1) \<Rightarrow>
                (if csu_sensor_label_custom body = None \<and> csu_min_threshold body = None
                    \<and> csu_max_threshold body = None \<and> csu_multiplier body = None
                 then (Inl (HTTPException 400 ''No fields to update''), w1)
                 else case update_sensor_rows c cfg_t now sid uid body of
                        Inl e \<Rightarrow> (Inl e, w1)
                      | Inr (rowcount, c') \<Rightarrow>
                          (if rowcount = 0
                           then (Inl (HTTPException 404 ''Configured sensor not found''), w1)
                           else (Inr (), commit c' w1)))))"

definition delete_configured_sensor ::
  "config \<Rightarrow> nat \<Rightarrow> world \<Rightarrow> int \<Rightarrow> RequestContext \<Rightarrow> (error + unit) \<times> world" where
  "delete_configured_sensor cfg now w sid ctx =
     (let uid = user_id ctx;
          cfg_t = app_state_table app_state_schema_default ''configured_sensors''
      in case get_app_state_conn cfg w (app_state_dsn ctx) of
           (Inl e, w1) \<Rightarrow> (Inl e, w1)
         | (Inr c, w1) \<Rightarrow>
             (case cfg_rows c cfg_t of
                Inl e \<Rightarrow> (Inl e, w1)
              | Inr rows \<Rightarrow>
                  (let hit = (\<lambda>r. configured_sensor_id r = sid \<and> cs_user_id r = uid);
                       rowcount = length (filter hit rows);
                       c' = c\<lparr> conn_tables := (conn_tables c)
                               \<lparr> configured_sensors :=
                                   Some (map (\<lambda>r. if hit r
                                                    then r\<lparr> is_active := False, updated_at := now \<rparr>
                                                    else r) rows) \<rparr> \<rparr>;
                       w2 = commit c' w1
                   in if rowcount = 0
                      then (Inl (HTTPException 404 ''Configured sensor not found''), w2)
                      else (Inr (), w2))))"

section \<open>main.py: dashboard planes\<close>

record DashboardPlaneCreate =
  dpc_configured_sensor_id :: int
  dpc_position_index :: int

definition list_dashboard_planes ::
  "config \<Rightarrow> world \<Rightarrow> RequestContext
     \<Rightarrow> (error + (dp_row \<times> cfg_row \<times> string option) list) \<times> world" where
  "list_dashboard_planes cfg w ctx =
     (let uid = user_id ctx;
          d = dsn ctx;
          dp_t = app_state_table app_state_schema_default ''dashboard_planes'';
          cfg_t = app_state_table app_state_schema_default ''configured_sensors'';
          use_sqlite = (app_state_dsn ctx = None \<and> app_state_uses_sqlite cfg);
          lit = (if use_sqlite then ''1'' else ''true'')
      in case get_app_state_conn cfg w (app_state_dsn ctx) of
           (Inl e, w1) \<Rightarrow> (empty_on_undefined_table (Inl e), w1)
         | (Inr c, w1) \<Rightarrow>
             (empty_on_undefined_table
               (case dp_rows c dp_t of
                  Inl e \<Rightarrow> Inl e
                | Inr drows \<Rightarrow>
                    (case cfg_rows c cfg_t of
                       Inl e \<Rightarrow> Inl e
                     | Inr crows \<Rightarrow>
                         (case is_active_test (conn_backend c) lit of
                            Some e \<Rightarrow> Inl e
                          | None \<Rightarrow>
                              (let mine = sort_key (\<lambda>r. (position_index r, dashboard_plane_id r))
                                            (filter (\<lambda>r. dp_user_id r = uid) drows);
                                   joined = concat (map (\<lambda>r. map (\<lambda>s. (r, s))
                                              (filter (\<lambda>s. configured_sensor_id s = dp_configured_sensor_id r
                                                            \<and> is_active s) crows)) mine)
                               in if use_sqlite
                                  then (if joined = [] then Inr []
                                        else case get_conn w1 d of
                                               Inl e \<Rightarrow> Inl e
                                             | Inr t \<Rightarrow>
                                                 (case objects_of t of
                                                    Inl e \<Rightarrow> Inl e
                                                  | Inr labels \<Rightarrow>
                                                      Inr (map (\<lambda>(r, s). (r, s, labels (object_id s)))
                                                             joined)))
                                  else (case objects_of (conn_tables c) of
                                          Inl e \<Rightarrow> Inl e
                                        | Inr labels \<Rightarrow>
                                            Inr (List.map_filter
                                                  (\<lambda>(r, s). case labels (object_id s) of
                                                                None \<Rightarrow> None
                                                              | Some l \<Rightarrow> Some (r, s, Some l))
                                                  joined)))))), w1))"

text \<open>
  Modelled from the spec: the integer columns of the two tables are PostgreSQL's
  \<^verbatim>\<open>integer\<close> (the schema is in \<^verbatim>\<open>migrations/\<close>; \<^verbatim>\<open>_SQLITE_SCHEMA\<close> declares them
  \<^verbatim>\<open>INTEGER\<close>, and auth.py says of the tenant column that the schema uses \<^verbatim>\<open>INTEGER\<close>).
  A value outside this range is refused when it is to be stored; a comparison with a
  column takes a number of any size.
\<close>

definition int4 :: "int \<Rightarrow> bool" where
  "int4 n \<longleftrightarrow> - 2147483648 \<le> n \<and> n \<le> 2147483647"

text \<open>
  Modelled from the spec: a dashboard plane is unique per (tenant, configured sensor); the
  constraint of the relational schema is declared in \<^verbatim>\<open>migrations/\<close>, and \<^verbatim>\<open>_SQLITE_SCHEMA\<close>
  declares the same one. The statement is
  \<^verbatim>\<open>INSERT ... ON CONFLICT (user_id, configured_sensor_id) DO UPDATE SET position_index\<close>
  with \<^verbatim>\<open>RETURNING\<close>: a row of the pair is updated where it stands, otherwise the new
  row is added. The sequence gives a number to the proposed row in both cases.
\<close>

definition upsert_plane :: "dp_row list \<Rightarrow> int \<Rightarrow> nat \<Rightarrow> int \<Rightarrow> int \<Rightarrow> int \<Rightarrow> dp_row \<times> dp_row list" where
  "upsert_plane rows new_id now uid sid pos =
     (let hit = (\<lambda>r. dp_user_id r = uid \<and> dp_configured_sensor_id r = sid)
      in case find hit rows of
           Some old \<Rightarrow>
             (old\<lparr> position_index := pos \<rparr>,
              map (\<lambda>r. if hit r then r\<lparr> position_index := pos \<rparr> else r) rows)
         | None \<Rightarrow>
             (let row = \<lparr> dashboard_plane_id = new_id, dp_user_id = uid,
                           dp_configured_sensor_id = sid, position_index = pos,
                           dp_created_at = now \<rparr>
              in (row, rows @ [row])))"

text \<open>
  \<^verbatim>\<open>add_dashboard_plane\<close>. The \<^verbatim>\<open>SELECT\<close> only compares its parameters. Of the three values
  of the \<^verbatim>\<open>INSERT\<close>, the tenant and the configured sensor have just matched a row of
  \<^verbatim>\<open>configured_sensors\<close>, so only \<^verbatim>\<open>position_index\<close> can be outside the range of its column;
  the database then refuses the statement before any row is touched.
\<close>

definition add_dashboard_plane ::
  "config \<Rightarrow> nat \<Rightarrow> world \<Rightarrow> DashboardPlaneCreate \<Rightarrow> RequestContext \<Rightarrow> (error + dp_row) \<times> world" where
  "add_dashboard_plane cfg now w body ctx =
     (let uid = user_id ctx;
          dp_t = app_state_table app_state_schema_default ''dashboard_planes'';
          cfg_t = app_state_table app_state_schema_default ''configured_sensors'';
          lit = (if app_state_uses_sqlite cfg then ''1'' else ''true'')
      in case get_app_state_conn cfg w (app_state_dsn ctx) of
           (Inl e, w1) \<Rightarrow> (Inl e, w1)
         | (Inr c, w1) \<Rightarrow>
             (case cfg_rows c cfg_t of
                Inl e \<Rightarrow> (Inl e, w1)
              | Inr crows \<Rightarrow>
                  (case is_active_test (conn_backend c) lit of
                     Some e \<Rightarrow> (Inl e, w1)
                   | None \<Rightarrow>
                       (if \<not> list_ex (\<lambda>r. configured_sensor_id r = dpc_configured_sensor_id body
                                             \<and> cs_user_id r = uid \<and> is_active r) crows
                        then (Inl (HTTPException 403 ''Configured sensor not found or access denied''), w1)
                        else case dp_rows c dp_t of
                               Inl e \<Rightarrow> (Inl e, w1)
                             | Inr drows \<Rightarrow>
                                 (if \<not> int4 (dpc_position_index body)
                                  then (Inl (DatabaseError ''integer out of range''), w1)
                                  else
                                   (let t = conn_tables c;
                                        new_id = dp_seq t + 1;
                                        (row, drows') = upsert_plane drows new_id now uid
                                                          (dpc_configured_sensor_id body)
                                                          (dpc_position_index body);
                                        c' = c\<lparr> conn_tables :=
                                                t\<lparr> dashboard_planes := Some drows', dp_seq := new_id \<rparr> \<rparr>
                                    in (Inr row, commit c' w1)))))))"

definition remove_dashboard_plane ::
  "config \<Rightarrow> world \<Rightarrow> int \<Rightarrow> RequestContext \<Rightarrow> (error + unit) \<times> world" where
  "remove_dashboard_plane cfg w dashboard_plane_id' ctx =
     (let uid = user_id ctx;
          dp_t = app_state_table app_state_schema_default ''dashboard_planes''
      in case get_app_state_conn cfg w (app_state_dsn ctx) of
           (Inl e, w1) \<Rightarrow> (Inl e, w1)
         | (Inr c, w1) \<Rightarrow>
             (case dp_rows c dp_t of
                Inl e \<Rightarrow> (Inl e, w1)
              | Inr drows \<Rightarrow>
                  (let hit = (\<lambda>r. dashboard_plane_id r = dashboard_plane_id' \<and> dp_user_id r = uid);
                       rowcount = length (filter hit drows);
                       c' = c\<lparr> conn_tables := (conn_tables c)
                               \<lparr> dashboard_planes := Some (filter (\<lambda>r. \<not> hit r) drows) \<rparr> \<rparr>;
                       w2 = commit c' w1
                   in if rowcount = 0
                      then (Inl (HTTPException 404 ''Dashboard plane not found''), w2)
                      else (Inr (), w2))))"

text \<open>
  The parameters of \<^verbatim>\<open>reorder_dashboard_planes\<close> come from untyped JSON items, and the
  driver sends each by its Python type. A string goes as text of unknown type, which
  PostgreSQL reads as an \<^verbatim>\<open>integer\<close> where it meets an integer column: optional blanks,
  an optional sign, decimal digits, optional blanks. (The other notations that newer
  versions of PostgreSQL also read are left out.)
\<close>

definition pg_space :: "char \<Rightarrow> bool" where
  "pg_space c = (let n = (of_char c :: nat) in (9 \<le> n \<and> n \<le> 13) \<or> n = 32)"

definition digits_value :: "string \<Rightarrow> int" where
  "digits_value ds = foldl (\<lambda>a c. 10 * a + (int (of_char c) - 48)) 0 ds"

definition int4in :: "string \<Rightarrow> error + int" where
  "int4in s =
     (let body = dropWhile pg_space s;
          neg = (body \<noteq> [] \<and> hd body = CHR ''-'');
          rest = (if body \<noteq> [] \<and> (hd body = CHR ''-'' \<or> hd body = CHR ''+'') then tl body else body);
          ds = takeWhile is_digit rest;
          n = (if neg then - digits_value ds else digits_value ds)
      in if ds = [] \<or> dropWhile pg_space (dropWhile is_digit rest) \<noteq> []
         then Inl (DatabaseError ''invalid input syntax for type integer'')
         else if \<not> int4 n then Inl (DatabaseError ''value out of range for type integer'')
         else Inr n)"

text \<open>A dict, alone or inside a list, has no adapter: the driver raises before it sends.\<close>

fun adaptable :: "pyval \<Rightarrow> bool" where
  "adaptable (PDict d) = False"
| "adaptable (PList xs) = list_all adaptable xs"
| "adaptable v = True"

text \<open>
  A parameter assigned to an integer column: the number to store, or \<open>None\<close> for
  \<^verbatim>\<open>NULL\<close>. A boolean and an array have no assignment to \<^verbatim>\<open>integer\<close>.
\<close>

definition assigned_int4 :: "pyval \<Rightarrow> error + int option" where
  "assigned_int4 v =
     (case v of
        PNone \<Rightarrow> Inr None
      | PInt i \<Rightarrow> (if int4 i then Inr (Some i) else Inl (DatabaseError ''integer out of range''))
      | PStr s \<Rightarrow> (case int4in s of Inl e \<Rightarrow> Inl e | Inr i \<Rightarrow> Inr (Some i))
      | PBool b \<Rightarrow> Inl (DatabaseError ''column is of type integer but expression is of type boolean'')
      | PList xs \<Rightarrow> Inl (DatabaseError ''column is of type integer but expression is an array'')
      | PDict d \<Rightarrow> Inl (DatabaseError ''cannot adapt type dict''))"

text \<open>
  A parameter compared with an integer column: the number it equals, or \<open>None\<close> when it
  equals no row (\<^verbatim>\<open>NULL\<close>, or a number outside the range of the column).
\<close>

definition compared_int4 :: "pyval \<Rightarrow> error + int option" where
  "compared_int4 v =
     (case v of
        PNone \<Rightarrow> Inr None
      | PInt i \<Rightarrow> Inr (Some i)
      | PStr s \<Rightarrow> (case int4in s of Inl e \<Rightarrow> Inl e | Inr i \<Rightarrow> Inr (Some i))
      | PBool b \<Rightarrow> Inl (DatabaseError ''operator does not exist: integer = boolean'')
      | PList xs \<Rightarrow> Inl (DatabaseError ''operator does not exist: integer = array'')
      | PDict d \<Rightarrow> Inl (DatabaseError ''cannot adapt type dict''))"

text \<open>
  The \<^verbatim>\<open>UPDATE\<close> of \<^verbatim>\<open>reorder_dashboard_planes\<close> on a PostgreSQL connection. A parameter
  without adapter fails first, then a missing table, then a parameter of the wrong type
  or form; \<^verbatim>\<open>NULL\<close> violates the column's \<^verbatim>\<open>NOT NULL\<close> only if a row is to be updated. On
  a SQLite connection the statement is prepared before its parameters are bound, and its
  table name is never found.
\<close>

definition update_position :: "conn \<Rightarrow> string \<Rightarrow> int \<Rightarrow> pyval \<Rightarrow> pyval \<Rightarrow> error + conn" where
  "update_position c name uid pid idx =
     (if conn_backend c = Postgres \<and> \<not> (adaptable idx \<and> adaptable pid)
      then Inl (DatabaseError ''cannot adapt type dict'')
      else case dp_rows c name of
        Inl e \<Rightarrow> Inl e
      | Inr drows \<Rightarrow>
          (case assigned_int4 idx of
             Inl e \<Rightarrow> Inl e
           | Inr i \<Rightarrow>
               (case compared_int4 pid of
                  Inl e \<Rightarrow> Inl e
                | Inr p \<Rightarrow>
                    (let hit = (\<lambda>r. Some (dashboard_plane_id r) = p \<and> dp_user_id r = uid)
                     in case i of
                          None \<Rightarrow>
                            (if list_ex hit drows
                             then Inl (DatabaseError
                                         ''null value in column position_index violates not-null constraint'')
                             else Inr c)
                        | Some i' \<Rightarrow>
                            Inr (c\<lparr> conn_tables := (conn_tables c)
                                    \<lparr> dashboard_planes :=
                                        Some (map (\<lambda>r. if hit r then r\<lparr> position_index := i' \<rparr> else r)
                                                drows) \<rparr> \<rparr>)))))"

fun reorder_items :: "conn \<Rightarrow> string \<Rightarrow> int \<Rightarrow> (string \<times> pyval) list list \<Rightarrow> error + conn" where
  "reorder_items c name uid [] = Inr c"
| "reorder_items c name uid (item # rest) =
     (let pid = dict_get item ''dashboard_plane_id'';
          idx = (case map_of item ''position_index'' of None \<Rightarrow> PInt 0 | Some v \<Rightarrow> v)
      in if pid = PNone then reorder_items c name uid rest
         else case update_position c name uid pid idx of
                Inl e \<Rightarrow> Inl e
              | Inr c' \<Rightarrow> reorder_items c' name uid rest)"

definition reorder_dashboard_planes ::
  "config \<Rightarrow> world \<Rightarrow> (string \<times> pyval) list list \<Rightarrow> RequestContext \<Rightarrow> (error + unit) \<times> world" where
  "reorder_dashboard_planes cfg w order ctx =
     (let uid = user_id ctx;
          dp_t = app_state_table app_state_schema_default ''dashboard_planes''
      in case get_app_state_conn cfg w (app_state_dsn ctx) of
           (Inl e, w1) \<Rightarrow> (Inl e, w1)
         | (Inr c, w1) \<Rightarrow>
             (case reorder_items c dp_t uid order of
                Inl e \<Rightarrow> (Inl e, w1)
              | Inr c' \<Rightarrow> (Inr (), commit c' w1)))"

section \<open>main.py: time series\<close>

definition TRACKING_DATA_CORE_SIGNALS :: "string list" where
  "TRACKING_DATA_CORE_SIGNALS =
     [''latitude'', ''longitude'', ''speed'', ''altitude'', ''satellites'', ''hdop'',
      ''gps_fix_type'', ''event_id'']"

text \<open>
  The statements the three handlers send to the warehouse. A constructor stands for one
  SQL text of the source and carries what the f-string puts into that text (whether the
  bucket expression is \<^verbatim>\<open>time_bucket\<close>, how many placeholders, the column name) and then
  the bound parameters.
\<close>

datatype sql =
    HasTimeBucket
  | InputsSeries bool nat "pyval list"
  | StatesSeries bool nat "pyval list"
  | TrackingSeries bool string nat "pyval list"
  | InputsHistory bool int string int
  | StatesHistory bool int string int
  | TrackingHistory bool string int int
  | InputsLatest nat "pyval list"
  | StatesLatest nat "pyval list"
  | TrackingLatest string pyval

text \<open>The column name a statement's text was built with, if it has one.\<close>

fun interpolated_column :: "sql \<Rightarrow> string option" where
  "interpolated_column (TrackingSeries has_tb col n device_ids) = Some col"
| "interpolated_column (TrackingHistory has_tb col device hours) = Some col"
| "interpolated_column (TrackingLatest col device) = Some col"
| "interpolated_column q = None"

record ts_row =
  r_device_id :: int
  r_sensor_name :: string
  r_ts :: string
  r_value :: "real option"
  r_has_tb :: bool

text \<open>
  The warehouse answers a statement with rows or with an error message; \<open>connect\<close> is
  \<^verbatim>\<open>psycopg.connect\<close> on a connection string. Both are parameters. A handler's result comes
  with the statements it executed, in their order.
\<close>

type_synonym warehouse = "sql \<Rightarrow> string + ts_row list"
type_synonym connector = "string \<Rightarrow> string + warehouse"
type_synonym 'a traced = "(error + 'a) \<times> sql list"

definition run_query :: "warehouse \<Rightarrow> sql \<Rightarrow> ts_row list traced" where
  "run_query wh q = (case wh q of Inl m \<Rightarrow> (Inl (DatabaseError m), [q]) | Inr rows \<Rightarrow> (Inr rows, [q]))"

definition then_do :: "'a traced \<Rightarrow> ('a \<Rightarrow> 'b traced) \<Rightarrow> 'b traced" where
  "then_do m f =
     (case m of
        (Inl e, tr) \<Rightarrow> (Inl e, tr)
      | (Inr x, tr) \<Rightarrow> (case f x of (r, tr') \<Rightarrow> (r, tr @ tr')))"

subsection \<open>Keys and points\<close>

definition digit_char :: "nat \<Rightarrow> char" where
  "digit_char n = char_of (48 + n mod 10)"

function str_of_nat :: "nat \<Rightarrow> string" where
  "str_of_nat n = (if n < 10 then [digit_char n] else str_of_nat (n div 10) @ [digit_char n])"
  by pat_completeness auto
termination
  by (relation "measure id") auto

definition str_of_int :: "int \<Rightarrow> string" where
  "str_of_int i = (if i < 0 then CHR ''-'' # str_of_nat (nat (- i)) else str_of_nat (nat i))"

definition series_key :: "int \<Rightarrow> string \<Rightarrow> string \<Rightarrow> string" where
  "series_key device label source = str_of_int device @ '':'' @ source @ '':'' @ label"

type_synonym point = "string \<times> real option"

definition point_of :: "ts_row \<Rightarrow> point" where
  "point_of r = (r_ts r, r_value r)"

text \<open>\<^verbatim>\<open>series[key].append(point)\<close> after \<^verbatim>\<open>if key not in series: series[key] = []\<close>.\<close>

definition series_append :: "(string \<times> point list) list \<Rightarrow> string \<Rightarrow> point \<Rightarrow> (string \<times> point list) list" where
  "series_append series k pt =
     (if k \<in> fst ` set series
      then map (\<lambda>(k', pts). if k' = k then (k', pts @ [pt]) else (k', pts)) series
      else series @ [(k, [pt])])"

text \<open>\<^verbatim>\<open>values[key] = point\<close>.\<close>

definition values_put :: "(string \<times> point) list \<Rightarrow> string \<Rightarrow> point \<Rightarrow> (string \<times> point) list" where
  "values_put vals k pt =
     (if k \<in> fst ` set vals
      then map (\<lambda>(k', old). if k' = k then (k', pt) else (k', old)) vals
      else vals @ [(k, pt)])"

subsection \<open>Normalising the requested pairs\<close>

definition normalize_pair :: "(string \<times> pyval) list \<Rightarrow> error + (pyval \<times> pyval \<times> string)" where
  "normalize_pair p =
     (let raw = dict_get p ''sensor_source'';
          v = (if truthy raw then raw else PStr ''input'')
      in case v of
           PStr s \<Rightarrow>
             (let src0 = lower (strip s);
                  src = (if src0 \<noteq> ''input'' \<and> src0 \<noteq> ''state'' \<and> src0 \<noteq> ''tracking''
                         then ''input'' else src0)
              in case map_of p ''device_id'' of
                   None \<Rightarrow> Inl (KeyError ''device_id'')
                 | Some d \<Rightarrow>
                     (case map_of p ''sensor_input_label'' of
                        None \<Rightarrow> Inl (KeyError ''sensor_input_label'')
                      | Some l \<Rightarrow> Inr (d, l, src)))
         | _ \<Rightarrow> Inl (AttributeError ''object has no attribute strip''))"

fun normalize_pairs :: "(string \<times> pyval) list list \<Rightarrow> error + (pyval \<times> pyval \<times> string) list" where
  "normalize_pairs [] = Inr []"
| "normalize_pairs (p # ps) =
     (case normalize_pair p of
        Inl e \<Rightarrow> Inl e
      | Inr n \<Rightarrow> (case normalize_pairs ps of Inl e \<Rightarrow> Inl e | Inr ns \<Rightarrow> Inr (n # ns)))"

definition keys_of :: "string \<Rightarrow> (pyval \<times> pyval \<times> string) list \<Rightarrow> (pyval \<times> pyval) list" where
  "keys_of source normalized =
     List.map_filter (\<lambda>(d, l, s). if s = source then Some (d, l) else None) normalized"

definition flat :: "(pyval \<times> pyval) list \<Rightarrow> pyval list" where
  "flat ks = concat (map (\<lambda>(d, l). [d, l]) ks)"

text \<open>
  \<^verbatim>\<open>[(d, l) for (d, l, s) in normalized if s == "tracking" and l in TRACKING_DATA_CORE_SIGNALS]\<close>:
  the list holds strings, so a label is in it only when it is one of these strings.
\<close>

definition tracking_pairs_of :: "(pyval \<times> pyval \<times> string) list \<Rightarrow> (pyval \<times> string) list" where
  "tracking_pairs_of normalized =
     List.map_filter
       (\<lambda>(d, l, s). case l of
                       PStr col \<Rightarrow>
                         (if s = ''tracking'' \<and> col \<in> set TRACKING_DATA_CORE_SIGNALS
                          then Some (d, col) else None)
                     | _ \<Rightarrow> None)
       normalized"

text \<open>\<^verbatim>\<open>col_to_devices.setdefault(col, []).append(d)\<close> over the pairs, in insertion order.\<close>

fun group_by_col :: "(pyval \<times> string) list \<Rightarrow> (string \<times> pyval list) list \<Rightarrow> (string \<times> pyval list) list" where
  "group_by_col [] acc = acc"
| "group_by_col ((d, col) # rest) acc =
     group_by_col rest
       (if col \<in> fst ` set acc
        then map (\<lambda>(c, ds). if c = col then (c, ds @ [d]) else (c, ds)) acc
        else acc @ [(col, [d])])"

text \<open>
  \<^verbatim>\<open>list(dict.fromkeys(xs))\<close>: the first occurrence of each key is kept; \<^verbatim>\<open>True\<close> and \<^verbatim>\<open>1\<close>
  are the same key; a list or a dict raises.
\<close>

fun py_key :: "pyval \<Rightarrow> pyval" where
  "py_key (PBool b) = PInt (if b then 1 else 0)"
| "py_key v = v"

fun fromkeys :: "pyval list \<Rightarrow> pyval list \<Rightarrow> error + pyval list" where
  "fromkeys [] acc = Inr acc"
| "fromkeys (d # ds) acc =
     (if \<not> hashable d then Inl (TypeError ''unhashable type'')
      else fromkeys ds (if py_key d \<in> py_key ` set acc then acc else acc @ [d]))"

definition has_tb_of :: "ts_row list \<Rightarrow> bool" where
  "has_tb_of rows = (case rows of [] \<Rightarrow> False | r # rest \<Rightarrow> r_has_tb r)"

subsection \<open>batch\_sparklines\<close>

fun tracking_series_loop ::
  "warehouse \<Rightarrow> bool \<Rightarrow> (string \<times> pyval list) list \<Rightarrow> (string \<times> point list) list
     \<Rightarrow> (string \<times> point list) list traced" where
  "tracking_series_loop wh has_tb [] series = (Inr series, [])"
| "tracking_series_loop wh has_tb ((col, devs) # rest) series =
     (case fromkeys devs [] of
        Inl e \<Rightarrow> (Inl e, [])
      | Inr device_ids \<Rightarrow>
          then_do (run_query wh (TrackingSeries has_tb col (length device_ids) device_ids))
            (\<lambda>rows. tracking_series_loop wh has_tb rest
                      (foldl (\<lambda>acc r. series_append acc (series_key (r_device_id r) col ''tracking'')
                                         (point_of r)) series rows)))"

text \<open>The body of the \<^verbatim>\<open>with get_conn(dsn)\<close> block of \<^verbatim>\<open>batch_sparklines\<close>.\<close>

definition sparklines_series ::
  "warehouse \<Rightarrow> (pyval \<times> pyval \<times> string) list \<Rightarrow> (string \<times> point list) list traced" where
  "sparklines_series wh normalized =
     then_do (run_query wh HasTimeBucket) (\<lambda>row_tb.
       (let has_tb = has_tb_of row_tb;
            input_keys = keys_of ''input'' normalized;
            state_keys = keys_of ''state'' normalized;
            tracking_pairs = tracking_pairs_of normalized
        in then_do
             (if input_keys \<noteq> []
              then then_do (run_query wh (InputsSeries has_tb (length input_keys) (flat input_keys)))
                     (\<lambda>rows. (Inr (foldl (\<lambda>acc r. series_append acc
                                 (series_key (r_device_id r) (r_sensor_name r) ''input'') (point_of r))
                                 [] rows), []))
              else (Inr [], []))
             (\<lambda>series1.
                then_do
                  (if state_keys \<noteq> []
                   then then_do (run_query wh (StatesSeries has_tb (length state_keys) (flat state_keys)))
                          (\<lambda>rows. (Inr (foldl (\<lambda>acc r. series_append acc
                                      (series_key (r_device_id r) (r_sensor_name r) ''state'') (point_of r))
                                      series1 rows), []))
                   else (Inr series1, []))
                  (\<lambda>series2.
                     tracking_series_loop wh has_tb (group_by_col tracking_pairs []) series2))))"

definition batch_sparklines ::
  "connector \<Rightarrow> (string \<times> pyval) list list \<Rightarrow> RequestContext \<Rightarrow> (string \<times> point list) list traced" where
  "batch_sparklines connect pairs ctx =
     (if pairs = [] then (Inr [], [])
      else case normalize_pairs pairs of
             Inl e \<Rightarrow> (Inl e, [])
           | Inr normalized \<Rightarrow>
               (case connect (dsn ctx) of
                  Inl m \<Rightarrow> (Inl (DatabaseError m), [])
                | Inr wh \<Rightarrow> sparklines_series wh normalized))"

subsection \<open>sensor\_history\<close>

record SensorHistoryRequest =
  sh_device_id :: int
  sh_sensor_input_label :: string
  sh_sensor_source :: string
  sh_hours :: int

definition hours_error :: error where
  "hours_error = HTTPException 400 ''hours must be 1, 4, 12, or 24''"

definition label_error :: error where
  "label_error = HTTPException 400 ''sensor_input_label not allowed for tracking source''"

definition sensor_history :: "connector \<Rightarrow> SensorHistoryRequest \<Rightarrow> RequestContext \<Rightarrow> point list traced" where
  "sensor_history connect body ctx =
     (let hours = sh_hours body in
      if hours \<noteq> 1 \<and> hours \<noteq> 4 \<and> hours \<noteq> 12 \<and> hours \<noteq> 24 then (Inl hours_error, [])
      else
        (let src = normalize_source (sh_sensor_source body) in
         if src = ''tracking'' \<and> sh_sensor_input_label body \<notin> set TRACKING_DATA_CORE_SIGNALS
         then (Inl label_error, [])
         else case connect (dsn ctx) of
                Inl m \<Rightarrow> (Inl (DatabaseError m), [])
              | Inr wh \<Rightarrow>
                  then_do (run_query wh HasTimeBucket) (\<lambda>row_tb.
                    (let has_tb = has_tb_of row_tb;
                         q = (if src = ''input''
                              then InputsHistory has_tb (sh_device_id body) (sh_sensor_input_label body) hours
                              else if src = ''state''
                              then StatesHistory has_tb (sh_device_id body) (sh_sensor_input_label body) hours
                              else TrackingHistory has_tb (sh_sensor_input_label body) (sh_device_id body) hours)
                     in then_do (run_query wh q) (\<lambda>rows. (Inr (map point_of rows), []))))))"

subsection \<open>batch\_latest\_values\<close>

fun tracking_latest_loop ::
  "warehouse \<Rightarrow> (pyval \<times> string) list \<Rightarrow> (string \<times> point) list \<Rightarrow> (string \<times> point) list traced" where
  "tracking_latest_loop wh [] vals = (Inr vals, [])"
| "tracking_latest_loop wh ((device, col) # rest) vals =
     then_do (run_query wh (TrackingLatest col device))
       (\<lambda>rows. tracking_latest_loop wh rest
                 (case rows of
                    [] \<Rightarrow> vals
                  | r # others \<Rightarrow> values_put vals (series_key (r_device_id r) col ''tracking'') (point_of r)))"

definition latest_values ::
  "warehouse \<Rightarrow> (pyval \<times> pyval \<times> string) list \<Rightarrow> (string \<times> point) list traced" where
  "latest_values wh normalized =
     (let input_keys = keys_of ''input'' normalized;
          state_keys = keys_of ''state'' normalized;
          tracking_pairs = tracking_pairs_of normalized
      in then_do
           (if input_keys \<noteq> []
            then then_do (run_query wh (InputsLatest (length input_keys) (flat input_keys)))
                   (\<lambda>rows. (Inr (foldl (\<lambda>acc r. values_put acc
                               (series_key (r_device_id r) (r_sensor_name r) ''input'') (point_of r))
                               [] rows), []))
            else (Inr [], []))
           (\<lambda>vals1.
              then_do
                (if state_keys \<noteq> []
                 then then_do (run_query wh (StatesLatest (length state_keys) (flat state_keys)))
                        (\<lambda>rows. (Inr (foldl (\<lambda>acc r. values_put acc
                                    (series_key (r_device_id r) (r_sensor_name r) ''state'') (point_of r))
                                    vals1 rows), []))
                 else (Inr vals1, []))
                (\<lambda>vals2. tracking_latest_loop wh tracking_pairs vals2)))"

definition batch_latest_values ::
  "connector \<Rightarrow> (string \<times> pyval) list list \<Rightarrow> RequestContext \<Rightarrow> (string \<times> point) list traced" where
  "batch_latest_values connect pairs ctx =
     (if pairs = [] then (Inr [], [])
      else case normalize_pairs pairs of
             Inl e \<Rightarrow> (Inl e, [])
           | Inr normalized \<Rightarrow>
               (case connect (dsn ctx) of
                  Inl m \<Rightarrow> (Inl (DatabaseError m), [])
                | Inr wh \<Rightarrow> latest_values wh normalized))"

section \<open>Verification: definitions\<close>

text \<open>
  The registry changes only through the four functions below; a state is reachable when a
  sequence of such calls leads to it from the state the module starts with.
\<close>

inductive auth_step :: "auth_state \<Rightarrow> auth_state \<Rightarrow> bool" where
  resolve: "get_request_context jwt_decode secret req h q du dd s = (r, s') \<Longrightarrow> auth_step s s'"
| login: "auth_login jwt_encode urlparse cfg new_uuid now body s = (r', s') \<Longrightarrow> auth_step s s'"
| assign: "stable_user_id u s = (n, s') \<Longrightarrow> auth_step s s'"
| store: "auth_step s (store_credentials u a b s)"

definition registry_inv :: "auth_state \<Rightarrow> bool" where
  "registry_inv s \<longleftrightarrow>
     (\<forall>u n. uuid_to_int s u = Some n \<longrightarrow> n < int_counter s) \<and>
     (\<forall>u v n. uuid_to_int s u = Some n \<and> uuid_to_int s v = Some n \<longrightarrow> u = v)"


text \<open>Inputs used to evaluate the functions on concrete requests.\<close>

definition example_secret :: string where
  "example_secret = ''0123456789abcdef0123456789abcdef''"

definition example_short_config :: config where
  "example_short_config =
     \<lparr> JWT_SECRET = ''0123456789abcdef0123456789abcde'', DEFAULT_DSN = ''postgresql://default/db'',
       DEFAULT_USER_ID = 1, APP_STATE_DSN = [], ALLOW_PRIVATE_DSN = False \<rparr>"

definition example_decoder :: jwt_decoder where
  "example_decoder token secret =
     (if token = ''tok1'' then Some [(''userId'', PStr ''u1'')]
      else if token = ''tok9'' then Some [(''userId'', PStr ''u9'')]
      else None)"

definition example_request :: "string \<Rightarrow> request" where
  "example_request auth_header = \<lparr> headers = [''authorization'' \<mapsto> auth_header] \<rparr>"

definition example_registry :: auth_state where
  "example_registry =
     store_credentials ''u2'' ''postgresql://b/iot'' ''postgresql://b/app''
       (store_credentials ''u1'' ''postgresql://a/iot'' ''postgresql://a/app'' auth_init)"

definition example_connect :: connector where
  "example_connect d = Inr (\<lambda>q. Inr [])"

definition example_context :: RequestContext where
  "example_context = \<lparr> dsn = ''postgresql://a/iot'', app_state_dsn = Some ''postgresql://a/app'', user_id = 1 \<rparr>"

definition allowed_column :: "sql \<Rightarrow> bool" where
  "allowed_column q =
     (case interpolated_column q of
        None \<Rightarrow> True
      | Some col \<Rightarrow> col \<in> set TRACKING_DATA_CORE_SIGNALS)"

definition disallowed_tracking :: "pyval \<times> pyval \<times> string \<Rightarrow> bool" where
  "disallowed_tracking n =
     (case n of (d, l, s) \<Rightarrow> s = ''tracking'' \<and> l \<notin> PStr ` set TRACKING_DATA_CORE_SIGNALS)"

definition example_pairs :: "(string \<times> pyval) list list" where
  "example_pairs =
     [[(''device_id'', PInt 10), (''sensor_input_label'', PStr ''speed''),
       (''sensor_source'', PStr ''tracking'')],
      [(''device_id'', PInt 10), (''sensor_input_label'', PStr ''speed; DROP TABLE t''),
       (''sensor_source'', PStr '' Tracking '')]]"

text \<open>
  The dashboard planes of a database, the pair a plane is unique for, and the states of
  the databases that the handlers can reach from databases without dashboard planes:
  \<open>world_step cfg\<close> is one call of a handler under the configuration \<open>cfg\<close>, and
  \<open>store_step\<close> is one call under any configuration (the databases outlive a restart of
  the server with another environment).
\<close>

definition planes_of :: "tables \<Rightarrow> dp_row list" where
  "planes_of t = (case dashboard_planes t of None \<Rightarrow> [] | Some rows \<Rightarrow> rows)"

definition plane_pair :: "dp_row \<Rightarrow> int \<times> int" where
  "plane_pair r = (dp_user_id r, dp_configured_sensor_id r)"

definition store_at :: "world \<Rightarrow> conn \<Rightarrow> tables option" where
  "store_at w c =
     (case conn_backend c of
        Postgres \<Rightarrow> pg_dbs w (conn_key c)
      | Sqlite \<Rightarrow> sqlite_files w (conn_key c))"

definition no_planes :: "world \<Rightarrow> bool" where
  "no_planes w \<longleftrightarrow>
     (\<forall>p t. sqlite_files w p = Some t \<longrightarrow> planes_of t = []) \<and>
     (\<forall>d t. pg_dbs w d = Some t \<longrightarrow> planes_of t = [])"

inductive world_step :: "config \<Rightarrow> world \<Rightarrow> world \<Rightarrow> bool" for cfg :: config where
  list_sensors: "list_configured_sensors cfg w ctx = (r1, w') \<Longrightarrow> world_step cfg w w'"
| add_sensor: "add_configured_sensor cfg now w body ctx = (r2, w') \<Longrightarrow> world_step cfg w w'"
| update_sensor: "update_configured_sensor cfg now w sid ubody ctx = (r3, w') \<Longrightarrow> world_step cfg w w'"
| delete_sensor: "delete_configured_sensor cfg now w sid ctx = (r4, w') \<Longrightarrow> world_step cfg w w'"
| list_planes: "list_dashboard_planes cfg w ctx = (r5, w') \<Longrightarrow> world_step cfg w w'"
| add_plane: "add_dashboard_plane cfg now w pbody ctx = (r6, w') \<Longrightarrow> world_step cfg w w'"
| remove_plane: "remove_dashboard_plane cfg w pid ctx = (r7, w') \<Longrightarrow> world_step cfg w w'"
| reorder_planes: "reorder_dashboard_planes cfg w order ctx = (r8, w') \<Longrightarrow> world_step cfg w w'"

definition store_ok :: "tables \<Rightarrow> bool" where
  "store_ok t \<longleftrightarrow>
     distinct (map plane_pair (planes_of t)) \<and>
     distinct (map dashboard_plane_id (planes_of t)) \<and>
     (\<forall>r \<in> set (planes_of t). dashboard_plane_id r \<le> dp_seq t)"

definition world_ok :: "world \<Rightarrow> bool" where
  "world_ok w \<longleftrightarrow>
     (\<forall>p t. sqlite_files w p = Some t \<longrightarrow> planes_of t = []) \<and>
     (\<forall>d t. pg_dbs w d = Some t \<longrightarrow> store_ok t)"

inductive store_step :: "world \<Rightarrow> world \<Rightarrow> bool" where
  under: "world_step cfg w w' \<Longrightarrow> store_step w w'"

definition same_planes :: "conn \<Rightarrow> conn \<Rightarrow> bool" where
  "same_planes c c' \<longleftrightarrow>
     conn_backend c' = conn_backend c \<and> conn_key c' = conn_key c \<and>
     dashboard_planes (conn_tables c') = dashboard_planes (conn_tables c) \<and>
     dp_seq (conn_tables c') = dp_seq (conn_tables c)"

definition planes_like :: "conn \<Rightarrow> conn \<Rightarrow> bool" where
  "planes_like c c' \<longleftrightarrow>
     conn_backend c' = conn_backend c \<and> conn_key c' = conn_key c \<and>
     dp_seq (conn_tables c') = dp_seq (conn_tables c) \<and>
     map plane_pair (planes_of (conn_tables c')) = map plane_pair (planes_of (conn_tables c)) \<and>
     map dashboard_plane_id (planes_of (conn_tables c'))
       = map dashboard_plane_id (planes_of (conn_tables c))"

text \<open>Databases used to evaluate the handlers on concrete requests.\<close>

definition example_config :: config where
  "example_config =
     \<lparr> JWT_SECRET = ''0123456789abcdef0123456789abcdef'', DEFAULT_DSN = ''postgresql://default/db'',
       DEFAULT_USER_ID = 1, APP_STATE_DSN = ''postgresql://state/db'', ALLOW_PRIVATE_DSN = False \<rparr>"

definition example_sensor :: "int \<Rightarrow> int \<Rightarrow> bool \<Rightarrow> nat \<Rightarrow> cfg_row" where
  "example_sensor sid uid active changed =
     \<lparr> configured_sensor_id = sid, cs_user_id = uid, object_id = 100, device_id = 10,
       sensor_input_label = ''temp'', sensor_source = ''input'', sensor_id = None,
       sensor_label_custom = ''Temperature'', min_threshold = Some 0, max_threshold = Some 100,
       multiplier = None, is_active = active, created_at = 0, updated_at = changed \<rparr>"

definition example_plane :: "int \<Rightarrow> int \<Rightarrow> int \<Rightarrow> int \<Rightarrow> dp_row" where
  "example_plane pid uid sid pos =
     \<lparr> dashboard_plane_id = pid, dp_user_id = uid, dp_configured_sensor_id = sid,
       position_index = pos, dp_created_at = 1 \<rparr>"

definition example_tables :: "cfg_row list \<Rightarrow> dp_row list \<Rightarrow> int \<Rightarrow> tables" where
  "example_tables sensors planes seq =
     \<lparr> configured_sensors = Some sensors, dashboard_planes = Some planes, cfg_seq = 6,
       dp_seq = seq, objects = Some [100 \<mapsto> ''truck''] \<rparr>"

definition example_world :: "tables \<Rightarrow> world" where
  "example_world t = \<lparr> pg_dbs = [''postgresql://a/app'' \<mapsto> t], sqlite_files = Map.empty \<rparr>"

definition example_context2 :: RequestContext where
  "example_context2 = \<lparr> dsn = ''postgresql://a/iot'', app_state_dsn = Some ''postgresql://a/app'', user_id = 2 \<rparr>"

definition example_sensors :: "cfg_row list" where
  "example_sensors = [example_sensor 5 1 True 0, example_sensor 6 2 True 0]"

definition example_empty_tables :: tables where
  "example_empty_tables =
     \<lparr> configured_sensors = None, dashboard_planes = None, cfg_seq = 0, dp_seq = 0,
       objects = Some [100 \<mapsto> ''truck''] \<rparr>"

definition example_create :: "real option \<Rightarrow> real option \<Rightarrow> ConfiguredSensorCreate" where
  "example_create mn mx =
     \<lparr> csc_object_id = 100, csc_device_id = 10, csc_sensor_input_label = ''temp'',
       csc_sensor_source = ''input'', csc_sensor_id = None, csc_sensor_label_custom = ''Temperature'',
       csc_min_threshold = mn, csc_max_threshold = mx, csc_multiplier = None \<rparr>"

definition example_update :: "real option option \<Rightarrow> real option option \<Rightarrow> ConfiguredSensorUpdate" where
  "example_update mn mx =
     \<lparr> csu_sensor_label_custom = None, csu_min_threshold = mn, csu_max_threshold = mx,
       csu_multiplier = None \<rparr>"

subsection \<open>The registry invariant\<close>

lemma registry_inv_init: "registry_inv auth_init"
  by (simp add: registry_inv_def auth_init_def)

lemma stable_user_id_inv:
  assumes "registry_inv s" "stable_user_id u s = (n, s')"
  shows "registry_inv s'"
  using assms unfolding registry_inv_def stable_user_id_def Let_def
  by (auto split: if_splits) fastforce+

lemma stable_user_id_keeps:
  assumes "stable_user_id u s = (n, s')" "uuid_to_int s v = Some k"
  shows "uuid_to_int s' v = Some k"
  using assms unfolding stable_user_id_def Let_def by (auto split: if_splits)

lemma stable_user_id_assigned:
  assumes "stable_user_id u s = (n, s')"
  shows "uuid_to_int s' u = Some n"
  using assms unfolding stable_user_id_def Let_def by (auto split: if_splits)

lemma stable_user_id_lookup:
  assumes "uuid_to_int s u = Some n"
  shows "stable_user_id u s = (n, s)"
  using assms unfolding stable_user_id_def Let_def by auto

lemma stable_user_id_creds:
  assumes "stable_user_id u s = (n, s')"
  shows "user_credentials s' = user_credentials s"
  using assms unfolding stable_user_id_def Let_def by (auto split: if_splits)

lemma token_context_cases:
  assumes "token_context jwt_decode secret t s = (r, s')"
  shows "s' = s \<or> (\<exists>u n. stable_user_id u s = (n, s'))"
  using assms unfolding token_context_def Let_def
  by (auto split: option.splits if_splits sum.splits pyval.splits prod.splits)

lemma get_request_context_cases:
  assumes "get_request_context jwt_decode secret req h q du dd s = (r, s')"
  shows "s' = s \<or> (\<exists>u n. stable_user_id u s = (n, s'))"
proof (cases "\<exists>t. bearer_token req = Some t \<and> t \<noteq> [] \<and> is_app_connect_enabled secret")
  case True
  then obtain t where t: "bearer_token req = Some t" "t \<noteq> []" "is_app_connect_enabled secret"
    by blast
  obtain r0 s0 where tc: "token_context jwt_decode secret t s = (r0, s0)"
    by (cases "token_context jwt_decode secret t s")
  with assms t have "s' = s0"
    by (auto simp: get_request_context_def split: sum.splits option.splits)
  with token_context_cases[OF tc] show ?thesis by simp
next
  case False
  with assms have "s' = s"
    by (auto simp: get_request_context_def split: option.splits if_splits)
  then show ?thesis by simp
qed

lemma auth_login_cases:
  assumes "auth_login jwt_encode urlparse cfg new_uuid now body s = (r, s')"
  shows "s' = s \<or> s' = store_credentials new_uuid (lr_iotDbUrl body) (lr_userDbUrl body) s"
  using assms unfolding auth_login_def Let_def
  by (auto split: if_splits option.splits)

lemma store_credentials_ids:
  "uuid_to_int (store_credentials u a b s) = uuid_to_int s"
  "int_counter (store_credentials u a b s) = int_counter s"
  by (simp_all add: store_credentials_def)

lemma auth_step_inv:
  assumes "auth_step s s'" "registry_inv s"
  shows "registry_inv s'"
  using assms
proof (cases rule: auth_step.cases)
  case (resolve jwt_decode secret req h q du dd r)
  from get_request_context_cases[OF resolve] assms(2) show ?thesis
    by (auto intro: stable_user_id_inv)
next
  case (login jwt_encode urlparse cfg new_uuid now body r')
  from auth_login_cases[OF login] assms(2) show ?thesis
    by (auto simp: registry_inv_def store_credentials_ids)
next
  case (assign u n)
  with assms(2) show ?thesis by (auto intro: stable_user_id_inv)
next
  case (store u a b)
  with assms(2) show ?thesis by (auto simp: registry_inv_def store_credentials_ids)
qed

lemma auth_step_keeps:
  assumes "auth_step s s'" "uuid_to_int s v = Some k"
  shows "uuid_to_int s' v = Some k"
  using assms
proof (cases rule: auth_step.cases)
  case (resolve jwt_decode secret req h q du dd r)
  from get_request_context_cases[OF resolve] assms(2) show ?thesis
    by (auto intro: stable_user_id_keeps)
next
  case (login jwt_encode urlparse cfg new_uuid now body r')
  from auth_login_cases[OF login] assms(2) show ?thesis
    by (auto simp: store_credentials_ids)
next
  case (assign u n)
  with assms(2) show ?thesis by (auto intro: stable_user_id_keeps)
next
  case (store u a b)
  with assms(2) show ?thesis by (auto simp: store_credentials_ids)
qed

lemma auth_steps_inv:
  assumes "rtranclp auth_step s s'" "registry_inv s"
  shows "registry_inv s'"
  using assms by (induction rule: rtranclp_induct) (auto intro: auth_step_inv)

lemma auth_steps_keeps:
  assumes "rtranclp auth_step s s'" "uuid_to_int s v = Some k"
  shows "uuid_to_int s' v = Some k"
  using assms by (induction rule: rtranclp_induct) (auto intro: auth_step_keeps)

lemma registry_inv_distinct:
  assumes "registry_inv s" "uuid_to_int s u = Some n" "v \<noteq> u"
  shows "fst (stable_user_id v s) \<noteq> n" "uuid_to_int s v \<noteq> Some n"
  using assms unfolding registry_inv_def stable_user_id_def Let_def
  by (auto split: if_splits)

lemma creds_neq:
  fixes c1 c2 :: creds
  assumes "c1 \<noteq> c2"
  shows "(iotDbUrl c1, Some (userDbUrl c1)) \<noteq> (iotDbUrl c2, Some (userDbUrl c2))"
  using assms by (cases c1, cases c2) auto

lemma example_bearer [simp]:
  "bearer_token (example_request ''Bearer tok1'') = Some ''tok1''"
  "bearer_token (example_request ''Bearer tok9'') = Some ''tok9''"
  "bearer_token (example_request ''Bearer junk'') = Some ''junk''"
  "bearer_token (example_request ''Basic abc'') = None"
  by code_simp+

lemma example_secret_enabled [simp]: "is_app_connect_enabled example_secret"
  by (simp add: is_app_connect_enabled_def example_secret_def)

lemma example_registry_reachable: "rtranclp auth_step auth_init example_registry"
  unfolding example_registry_def
  by (meson auth_step.store rtranclp.rtrancl_into_rtrancl rtranclp.rtrancl_refl)


section \<open>Verification: tenant context resolution\<close>

text \<open>
  Claim C1. In strict mode (\<open>is_app_connect_enabled\<close>) a bearer token is mandatory. When
  the request has no token, when the token fails verification, or when the verified
  token's \<^verbatim>\<open>userId\<close> has no entry in the credential registry (a string without an entry, or
  any other hashable value, or no \<^verbatim>\<open>userId\<close> at all), \<open>get_request_context\<close> fails with the
  401 error and leaves the registry unchanged, so an unrecognized token has the very
  outcome of a missing one. The outcome never depends on the header connection string,
  the query identity or the configured defaults, and a context is only ever built from
  the registry entry of the verified token.
\<close>

theorem C1_strict_mode_fails_closed:
  assumes strict: "is_app_connect_enabled secret"
  shows "((bearer_token req = None \<or> bearer_token req = Some [])
          \<longrightarrow> get_request_context jwt_decode secret req h q du dd s = (Inl auth_required, s))
       \<and> (\<forall>t. bearer_token req = Some t \<and> verify_token jwt_decode secret t = None
          \<longrightarrow> get_request_context jwt_decode secret req h q du dd s = (Inl auth_required, s))
       \<and> (\<forall>t p. bearer_token req = Some t \<and> verify_token jwt_decode secret t = Some p
               \<and> hashable (dict_get p ''userId'')
               \<and> (\<forall>u. dict_get p ''userId'' = PStr u \<longrightarrow> user_credentials s u = None)
          \<longrightarrow> get_request_context jwt_decode secret req h q du dd s = (Inl auth_required, s))
       \<and> get_request_context jwt_decode secret req h q du dd s
           = get_request_context jwt_decode secret req h' q' du' dd' s
       \<and> (\<forall>ctx s'. get_request_context jwt_decode secret req h q du dd s = (Inr ctx, s')
            \<longrightarrow> (\<exists>t p u c. bearer_token req = Some t \<and> verify_token jwt_decode secret t = Some p
                   \<and> dict_get p ''userId'' = PStr u \<and> user_credentials s u = Some c
                   \<and> dsn ctx = iotDbUrl c \<and> app_state_dsn ctx = Some (userDbUrl c)))"
proof (intro conjI allI impI)
  show "get_request_context jwt_decode secret req h q du dd s = (Inl auth_required, s)"
    if "bearer_token req = None \<or> bearer_token req = Some []"
    using that strict by (auto simp: get_request_context_def)
  show "get_request_context jwt_decode secret req h q du dd s = (Inl auth_required, s)"
    if "bearer_token req = Some t \<and> verify_token jwt_decode secret t = None" for t
    using that strict by (auto simp: get_request_context_def token_context_def Let_def)
  show "get_request_context jwt_decode secret req h q du dd s = (Inl auth_required, s)"
    if "bearer_token req = Some t \<and> verify_token jwt_decode secret t = Some p
               \<and> hashable (dict_get p ''userId'')
               \<and> (\<forall>u. dict_get p ''userId'' = PStr u \<longrightarrow> user_credentials s u = None)" for t p
    using that strict
    by (cases "dict_get p ''userId''") (auto simp: get_request_context_def token_context_def Let_def)
  show "get_request_context jwt_decode secret req h q du dd s
           = get_request_context jwt_decode secret req h' q' du' dd' s"
    using strict by (auto simp: get_request_context_def Let_def split: option.splits sum.splits prod.splits)
  show "\<exists>t p u c. bearer_token req = Some t \<and> verify_token jwt_decode secret t = Some p
                   \<and> dict_get p ''userId'' = PStr u \<and> user_credentials s u = Some c
                   \<and> dsn ctx = iotDbUrl c \<and> app_state_dsn ctx = Some (userDbUrl c)"
    if "get_request_context jwt_decode secret req h q du dd s = (Inr ctx, s')" for ctx s'
    using that strict
    by (auto simp: get_request_context_def token_context_def Let_def 
             split: option.splits sum.splits prod.splits if_splits pyval.splits)
qed


theorem C1_strict_mode_fails_closed_witness:
  "is_app_connect_enabled example_secret
   \<and> get_request_context example_decoder example_secret (example_request ''Basic abc'')
        (Some ''postgresql://h/db'') (Some 7) 1 ''postgresql://default/db'' example_registry
      = (Inl auth_required, example_registry)
   \<and> get_request_context example_decoder example_secret (example_request ''Bearer junk'')
        (Some ''postgresql://h/db'') (Some 7) 1 ''postgresql://default/db'' example_registry
      = (Inl auth_required, example_registry)
   \<and> get_request_context example_decoder example_secret (example_request ''Bearer tok9'')
        (Some ''postgresql://h/db'') (Some 7) 1 ''postgresql://default/db'' example_registry
      = (Inl auth_required, example_registry)
   \<and> (\<exists>s'. get_request_context example_decoder example_secret (example_request ''Bearer tok1'')
        (Some ''postgresql://h/db'') (Some 7) 1 ''postgresql://default/db'' example_registry
      = (Inr \<lparr> dsn = ''postgresql://a/iot'', app_state_dsn = Some ''postgresql://a/app'', user_id = 1 \<rparr>, s'))"
proof -
  have v_junk: "verify_token example_decoder example_secret ''junk'' = None"
    by (simp add: verify_token_def example_decoder_def)
  have v9: "verify_token example_decoder example_secret ''tok9'' = Some [(''userId'', PStr ''u9'')]"
    by (simp add: verify_token_def example_decoder_def)
  have u9: "dict_get [(''userId'', PStr ''u9'')] ''userId'' = PStr ''u9''"
    by (simp add: dict_get_def)
  have no9: "user_credentials example_registry ''u9'' = None"
    by (simp add: example_registry_def store_credentials_def auth_init_def)
  have ok1: "\<exists>s'. get_request_context example_decoder example_secret (example_request ''Bearer tok1'')
        (Some ''postgresql://h/db'') (Some 7) 1 ''postgresql://default/db'' example_registry
      = (Inr \<lparr> dsn = ''postgresql://a/iot'', app_state_dsn = Some ''postgresql://a/app'', user_id = 1 \<rparr>, s')"
    by (simp add: get_request_context_def token_context_def verify_token_def example_decoder_def
          dict_get_def example_registry_def store_credentials_def auth_init_def stable_user_id_def)
  note c1 = C1_strict_mode_fails_closed [OF example_secret_enabled, of _ example_decoder "Some ''postgresql://h/db''" "Some 7" 1
                  "''postgresql://default/db''" example_registry]
  have a: "get_request_context example_decoder example_secret (example_request ''Basic abc'')
        (Some ''postgresql://h/db'') (Some 7) 1 ''postgresql://default/db'' example_registry
      = (Inl auth_required, example_registry)"
    using c1 [of "example_request ''Basic abc''"] by simp
  have b: "get_request_context example_decoder example_secret (example_request ''Bearer junk'')
        (Some ''postgresql://h/db'') (Some 7) 1 ''postgresql://default/db'' example_registry
      = (Inl auth_required, example_registry)"
    using c1 [of "example_request ''Bearer junk''"] v_junk by simp
  have c: "get_request_context example_decoder example_secret (example_request ''Bearer tok9'')
        (Some ''postgresql://h/db'') (Some 7) 1 ''postgresql://default/db'' example_registry
      = (Inl auth_required, example_registry)"
    using c1 [of "example_request ''Bearer tok9''"] v9 u9 no9 by simp
  from a b c ok1 show ?thesis by simp
qed



text \<open>
  Claim C2. In a reachable registry state, for session identities \<open>S1 \<noteq> S2\<close> with
  different stored credential pairs, resolving a valid token for \<open>S1\<close> in strict mode
  succeeds with \<open>S1\<close>'s two connection strings and \<open>S1\<close>'s stable integer identity; the pair
  of connection strings is not \<open>S2\<close>'s, and the identity is not the one \<open>S2\<close> has or will
  be given.
\<close>

theorem C2_tenant_isolation:
  assumes reach: "rtranclp auth_step auth_init s"
      and strict: "is_app_connect_enabled secret"
      and tok: "bearer_token req = Some t" "t \<noteq> []"
      and ver: "verify_token jwt_decode secret t = Some p"
      and uid: "dict_get p ''userId'' = PStr S1" "S1 \<noteq> []"
      and c1: "user_credentials s S1 = Some c1"
      and c2: "user_credentials s S2 = Some c2"
      and diff: "S1 \<noteq> S2" "c1 \<noteq> c2"
  shows "\<exists>ctx s'. get_request_context jwt_decode secret req h q du dd s = (Inr ctx, s')
           \<and> dsn ctx = iotDbUrl c1 \<and> app_state_dsn ctx = Some (userDbUrl c1)
           \<and> stable_user_id S1 s = (user_id ctx, s')
           \<and> (dsn ctx, app_state_dsn ctx) \<noteq> (iotDbUrl c2, Some (userDbUrl c2))
           \<and> uuid_to_int s' S2 \<noteq> Some (user_id ctx)
           \<and> fst (stable_user_id S2 s') \<noteq> user_id ctx"
proof -
  obtain n s' where sid: "stable_user_id S1 s = (n, s')"
    by (cases "stable_user_id S1 s")
  define ctx where "ctx = \<lparr> dsn = iotDbUrl c1, app_state_dsn = Some (userDbUrl c1), user_id = n \<rparr>"
  have pne: "p \<noteq> []" using uid(1) by (auto simp: dict_get_def)
  have res: "get_request_context jwt_decode secret req h q du dd s = (Inr ctx, s')"
    using strict tok ver uid c1 sid pne
    by (simp add: get_request_context_def token_context_def Let_def ctx_def)
  have "registry_inv s" using reach registry_inv_init by (rule auth_steps_inv)
  then have inv': "registry_inv s'" using sid by (rule stable_user_id_inv)
  have at: "uuid_to_int s' S1 = Some n" using sid by (rule stable_user_id_assigned)
  have ne: "S2 \<noteq> S1" using diff(1) by simp
  have "fst (stable_user_id S2 s') \<noteq> n" "uuid_to_int s' S2 \<noteq> Some n"
    using registry_inv_distinct[OF inv' at ne] by simp_all
  moreover have "(dsn ctx, app_state_dsn ctx) \<noteq> (iotDbUrl c2, Some (userDbUrl c2))"
    using creds_neq[OF diff(2)] by (simp add: ctx_def)
  ultimately show ?thesis using res sid by (auto simp: ctx_def)
qed

theorem C2_tenant_isolation_witness:
  "\<exists>s'. get_request_context example_decoder example_secret (example_request ''Bearer tok1'')
        (Some ''postgresql://h/db'') (Some 7) 1 ''postgresql://default/db'' example_registry
      = (Inr \<lparr> dsn = ''postgresql://a/iot'', app_state_dsn = Some ''postgresql://a/app'', user_id = 1 \<rparr>, s')
    \<and> user_credentials example_registry ''u2''
         = Some \<lparr> iotDbUrl = ''postgresql://b/iot'', userDbUrl = ''postgresql://b/app'' \<rparr>
    \<and> uuid_to_int s' ''u2'' \<noteq> Some 1
    \<and> fst (stable_user_id ''u2'' s') = 2"
proof -
  have ver: "verify_token example_decoder example_secret ''tok1'' = Some [(''userId'', PStr ''u1'')]"
    by (simp add: verify_token_def example_decoder_def)
  have uid: "dict_get [(''userId'', PStr ''u1'')] ''userId'' = PStr ''u1''"
    by (simp add: dict_get_def)
  have c1: "user_credentials example_registry ''u1''
         = Some \<lparr> iotDbUrl = ''postgresql://a/iot'', userDbUrl = ''postgresql://a/app'' \<rparr>"
    by (simp add: example_registry_def store_credentials_def auth_init_def)
  have c2: "user_credentials example_registry ''u2''
         = Some \<lparr> iotDbUrl = ''postgresql://b/iot'', userDbUrl = ''postgresql://b/app'' \<rparr>"
    by (simp add: example_registry_def store_credentials_def auth_init_def)
  have sid: "stable_user_id ''u1'' example_registry
         = (1, example_registry\<lparr> uuid_to_int := [''u1'' \<mapsto> 1], int_counter := 2 \<rparr>)"
    by (simp add: stable_user_id_def example_registry_def store_credentials_def auth_init_def)
  have two: "fst (stable_user_id ''u2''
                (example_registry\<lparr> uuid_to_int := [''u1'' \<mapsto> 1], int_counter := 2 \<rparr>)) = 2"
    by (simp add: stable_user_id_def)
  from C2_tenant_isolation [OF example_registry_reachable example_secret_enabled example_bearer(1) _ ver uid _ c1 c2,
           of "Some ''postgresql://h/db''" "Some 7" 1 "''postgresql://default/db''"]
  obtain ctx s' where r:
     "get_request_context example_decoder example_secret (example_request ''Bearer tok1'')
        (Some ''postgresql://h/db'') (Some 7) 1 ''postgresql://default/db'' example_registry = (Inr ctx, s')"
     "dsn ctx = ''postgresql://a/iot''" "app_state_dsn ctx = Some ''postgresql://a/app''"
     "stable_user_id ''u1'' example_registry = (user_id ctx, s')"
     "uuid_to_int s' ''u2'' \<noteq> Some (user_id ctx)"
    by auto
  from r(4) sid have id1: "user_id ctx = 1"
    and s': "s' = example_registry\<lparr> uuid_to_int := [''u1'' \<mapsto> 1], int_counter := 2 \<rparr>"
    by simp_all
  have "ctx = \<lparr> dsn = ''postgresql://a/iot'', app_state_dsn = Some ''postgresql://a/app'', user_id = 1 \<rparr>"
    using r(2,3) id1 by (cases ctx) simp
  with r(1,5) id1 c2 two s' show ?thesis by auto
qed


text \<open>
  Claim C3. In a reachable registry state, once \<open>stable_user_id\<close> has given a session
  identity its integer, every later state (after any number of further registry
  operations) still maps that identity to the same integer, resolving it again returns
  that integer and changes nothing, and every other session identity has, and is given,
  a different integer.
\<close>

theorem C3_stable_id_injective_and_stable:
  assumes "rtranclp auth_step auth_init s"
      and "stable_user_id u s = (n, s1)"
      and "rtranclp auth_step s1 s2"
  shows "stable_user_id u s2 = (n, s2)
       \<and> (\<forall>v. v \<noteq> u \<longrightarrow> fst (stable_user_id v s2) \<noteq> n \<and> uuid_to_int s2 v \<noteq> Some n)"
proof -
  have "registry_inv s" using assms(1) registry_inv_init by (rule auth_steps_inv)
  then have "registry_inv s1" using assms(2) by (rule stable_user_id_inv)
  with assms(3) have inv2: "registry_inv s2" by (rule auth_steps_inv)
  have "uuid_to_int s1 u = Some n" using assms(2) by (rule stable_user_id_assigned)
  with assms(3) have at2: "uuid_to_int s2 u = Some n" by (rule auth_steps_keeps)
  then have "stable_user_id u s2 = (n, s2)" by (rule stable_user_id_lookup)
  moreover have "fst (stable_user_id v s2) \<noteq> n \<and> uuid_to_int s2 v \<noteq> Some n" if "v \<noteq> u" for v
    using registry_inv_distinct[OF inv2 at2 that] by simp
  ultimately show ?thesis by blast
qed


theorem C3_stable_id_injective_and_stable_witness:
  "rtranclp auth_step auth_init example_registry
   \<and> (\<exists>s1 s2. stable_user_id ''u1'' example_registry = (1, s1)
         \<and> stable_user_id ''u2'' s1 = (2, s2)
         \<and> stable_user_id ''u1'' s2 = (1, s2)
         \<and> stable_user_id ''u2'' s2 = (2, s2))"
proof -
  define s1 where "s1 = example_registry\<lparr> uuid_to_int := [''u1'' \<mapsto> 1], int_counter := 2 \<rparr>"
  define s2 where "s2 = example_registry\<lparr> uuid_to_int := [''u1'' \<mapsto> 1, ''u2'' \<mapsto> 2], int_counter := 3 \<rparr>"
  have a: "stable_user_id ''u1'' example_registry = (1, s1)"
    by (simp add: stable_user_id_def example_registry_def store_credentials_def auth_init_def s1_def)
  have b: "stable_user_id ''u2'' s1 = (2, s2)"
    by (simp add: stable_user_id_def s1_def s2_def)
  have step: "rtranclp auth_step s1 s2"
    using auth_step.assign[OF b] by blast
  from C3_stable_id_injective_and_stable [OF example_registry_reachable a step]
  have c: "stable_user_id ''u1'' s2 = (1, s2)" by simp
  have d: "stable_user_id ''u2'' s2 = (2, s2)"
    using stable_user_id_lookup[of s2 "''u2''" 2] by (simp add: s2_def)
  from example_registry_reachable a b c d show ?thesis by blast
qed




section \<open>Verification: time series\<close>

lemma example_sources [simp]:
  "normalize_source '' Tracking '' = ''tracking''"
  "normalize_source ''tracking'' = ''tracking''"
  "normalize_source ''input'' = ''input''"
  by code_simp+

lemma allowed_then_do:
  assumes "list_all allowed_column (snd m)" "\<And>x. list_all allowed_column (snd (f x))"
  shows "list_all allowed_column (snd (then_do m f))"
proof (cases m)
  case (Pair r tr)
  show ?thesis
  proof (cases r)
    case (Inl e)
    with Pair assms(1) show ?thesis by (simp add: then_do_def)
  next
    case (Inr x)
    obtain r' tr' where f: "f x = (r', tr')" by (cases "f x")
    with assms(2)[of x] have "list_all allowed_column tr'" by simp
    with Pair Inr f assms(1) show ?thesis by (simp add: then_do_def)
  qed
qed

lemma allowed_run_query:
  assumes "allowed_column q"
  shows "list_all allowed_column (snd (run_query wh q))"
  using assms by (simp add: run_query_def split: sum.splits)

lemma in_map_filter:
  "y \<in> set (List.map_filter f xs) \<longleftrightarrow> (\<exists>x \<in> set xs. f x = Some y)"
  by (induction xs) (auto split: option.splits)

lemma tracking_pairs_of_allowed:
  assumes "(d, col) \<in> set (tracking_pairs_of normalized)"
  shows "col \<in> set TRACKING_DATA_CORE_SIGNALS"
  using assms
  by (auto simp: tracking_pairs_of_def in_map_filter split: pyval.splits if_splits)

lemma group_by_col_keys:
  "fst ` set (group_by_col ps acc) \<subseteq> snd ` set ps \<union> fst ` set acc"
proof (induction ps acc rule: group_by_col.induct)
  case (1 acc)
  then show ?case by simp
next
  case (2 d col rest acc)
  then show ?case by (auto split: if_splits) force+
qed

lemma tracking_series_loop_allowed:
  assumes "\<forall>g \<in> set groups. fst g \<in> set TRACKING_DATA_CORE_SIGNALS"
  shows "list_all allowed_column (snd (tracking_series_loop wh has_tb groups series))"
  using assms
proof (induction groups arbitrary: series)
  case Nil
  then show ?case by simp
next
  case (Cons g groups)
  obtain col devs where g: "g = (col, devs)" by (cases g)
  show ?case
  proof (cases "fromkeys devs []")
    case (Inl e)
    with g show ?thesis by simp
  next
    case (Inr device_ids)
    have "allowed_column (TrackingSeries has_tb col (length device_ids) device_ids)"
      using Cons.prems g by (simp add: allowed_column_def)
    then show ?thesis
      using g Inr Cons by (auto intro!: allowed_then_do allowed_run_query)
  qed
qed

lemma tracking_latest_loop_allowed:
  assumes "\<forall>p \<in> set ps. snd p \<in> set TRACKING_DATA_CORE_SIGNALS"
  shows "list_all allowed_column (snd (tracking_latest_loop wh ps vals))"
  using assms
proof (induction ps arbitrary: vals)
  case Nil
  then show ?case by simp
next
  case (Cons p ps)
  obtain device col where p: "p = (device, col)" by (cases p)
  have "allowed_column (TrackingLatest col device)"
    using Cons.prems p by (simp add: allowed_column_def)
  then show ?case
    using p Cons by (auto intro!: allowed_then_do allowed_run_query)
qed




lemma map_filter_filter:
  assumes "\<And>x. x \<in> set xs \<Longrightarrow> \<not> P x \<Longrightarrow> f x = None"
  shows "List.map_filter f (filter P xs) = List.map_filter f xs"
  using assms by (induction xs) (auto split: option.splits)

lemma keys_of_drop:
  assumes "source \<noteq> ''tracking''"
  shows "keys_of source (filter (\<lambda>n. \<not> disallowed_tracking n) normalized) = keys_of source normalized"
  unfolding keys_of_def
  by (rule map_filter_filter) (use assms in \<open>auto simp: disallowed_tracking_def\<close>)

lemma tracking_pairs_of_drop:
  "tracking_pairs_of (filter (\<lambda>n. \<not> disallowed_tracking n) normalized) = tracking_pairs_of normalized"
  unfolding tracking_pairs_of_def
  by (rule map_filter_filter) (auto simp: disallowed_tracking_def split: pyval.splits)

lemma sparklines_series_drop:
  "sparklines_series wh (filter (\<lambda>n. \<not> disallowed_tracking n) normalized) = sparklines_series wh normalized"
  by (simp add: sparklines_series_def keys_of_drop tracking_pairs_of_drop)

lemma latest_values_drop:
  "latest_values wh (filter (\<lambda>n. \<not> disallowed_tracking n) normalized) = latest_values wh normalized"
  by (simp add: latest_values_def keys_of_drop tracking_pairs_of_drop)


lemma sensor_history_allowed:
  "list_all allowed_column (snd (sensor_history connect body ctx))"
proof -
  let ?src = "normalize_source (sh_sensor_source body)"
  have q: "allowed_column
             (if ?src = ''input''
              then InputsHistory tb (sh_device_id body) (sh_sensor_input_label body) (sh_hours body)
              else if ?src = ''state''
              then StatesHistory tb (sh_device_id body) (sh_sensor_input_label body) (sh_hours body)
              else TrackingHistory tb (sh_sensor_input_label body) (sh_device_id body) (sh_hours body))"
    if "\<not> (?src = ''tracking'' \<and> sh_sensor_input_label body \<notin> set TRACKING_DATA_CORE_SIGNALS)" for tb
  proof -
    have "?src = ''input'' \<or> ?src = ''state'' \<or> ?src = ''tracking''"
      by (simp add: normalize_source_def Let_def)
    with that show ?thesis by (auto simp: allowed_column_def)
  qed
  have tb: "allowed_column HasTimeBucket" by (simp add: allowed_column_def)
  show ?thesis
  proof (cases "connect (dsn ctx)")
    case (Inl m)
    then show ?thesis by (simp add: sensor_history_def Let_def)
  next
    case (Inr wh)
    show ?thesis
      unfolding sensor_history_def Let_def
      using Inr q tb
      by (auto intro!: allowed_then_do allowed_run_query)
  qed
qed


lemma allowed_pure: "list_all allowed_column (snd ((Inr x, []) :: 'a traced))"
  by simp

lemma allowed_if:
  assumes "list_all allowed_column (snd a)" "list_all allowed_column (snd b)"
  shows "list_all allowed_column (snd (if c then a else b))"
  using assms by simp

lemma allowed_simple:
  "allowed_column HasTimeBucket"
  "allowed_column (InputsSeries tb n ps)"
  "allowed_column (StatesSeries tb n ps)"
  "allowed_column (InputsLatest n ps)"
  "allowed_column (StatesLatest n ps)"
  by (simp_all add: allowed_column_def)


lemma groups_allowed:
  "\<forall>g \<in> set (group_by_col (tracking_pairs_of normalized) []). fst g \<in> set TRACKING_DATA_CORE_SIGNALS"
proof
  fix g assume "g \<in> set (group_by_col (tracking_pairs_of normalized) [])"
  then have "fst g \<in> fst ` set (group_by_col (tracking_pairs_of normalized) [])" by simp
  with group_by_col_keys[of "tracking_pairs_of normalized" "[]"]
  have "fst g \<in> snd ` set (tracking_pairs_of normalized)" by auto
  then obtain d where "(d, fst g) \<in> set (tracking_pairs_of normalized)" by force
  then show "fst g \<in> set TRACKING_DATA_CORE_SIGNALS" by (rule tracking_pairs_of_allowed)
qed

lemma pairs_allowed:
  "\<forall>p \<in> set (tracking_pairs_of normalized). snd p \<in> set TRACKING_DATA_CORE_SIGNALS"
proof
  fix p assume "p \<in> set (tracking_pairs_of normalized)"
  then have "(fst p, snd p) \<in> set (tracking_pairs_of normalized)" by simp
  then show "snd p \<in> set TRACKING_DATA_CORE_SIGNALS" by (rule tracking_pairs_of_allowed)
qed


lemma sparklines_series_allowed:
  "list_all allowed_column (snd (sparklines_series wh normalized))"
  unfolding sparklines_series_def Let_def
  apply (rule allowed_then_do)
   apply (rule allowed_run_query)
   apply (rule allowed_simple)
  apply (rule allowed_then_do)
   apply (rule allowed_if)
    apply (rule allowed_then_do)
     apply (rule allowed_run_query)
     apply (rule allowed_simple)
    apply (rule allowed_pure)
   apply (rule allowed_pure)
  apply (rule allowed_then_do)
   apply (rule allowed_if)
    apply (rule allowed_then_do)
     apply (rule allowed_run_query)
     apply (rule allowed_simple)
    apply (rule allowed_pure)
   apply (rule allowed_pure)
  apply (rule tracking_series_loop_allowed)
  apply (rule groups_allowed)
  done

lemma latest_values_allowed:
  "list_all allowed_column (snd (latest_values wh normalized))"
  unfolding latest_values_def Let_def
  apply (rule allowed_then_do)
   apply (rule allowed_if)
    apply (rule allowed_then_do)
     apply (rule allowed_run_query)
     apply (rule allowed_simple)
    apply (rule allowed_pure)
   apply (rule allowed_pure)
  apply (rule allowed_then_do)
   apply (rule allowed_if)
    apply (rule allowed_then_do)
     apply (rule allowed_run_query)
     apply (rule allowed_simple)
    apply (rule allowed_pure)
   apply (rule allowed_pure)
  apply (rule tracking_latest_loop_allowed)
  apply (rule pairs_allowed)
  done

lemma batch_sparklines_allowed:
  "list_all allowed_column (snd (batch_sparklines connect pairs ctx))"
  by (simp add: batch_sparklines_def sparklines_series_allowed split: sum.splits)

lemma batch_latest_values_allowed:
  "list_all allowed_column (snd (batch_latest_values connect pairs ctx))"
  by (simp add: batch_latest_values_def latest_values_allowed split: sum.splits)




text \<open>
  Claim C9. \<open>sensor_history\<close> answers an \<^verbatim>\<open>hours\<close> value outside 1, 4, 12, 24 with status
  400, and a label outside \<open>TRACKING_DATA_CORE_SIGNALS\<close> for the tracking source (the
  source after normalisation) with status 400, both before any statement; a request that
  passes both checks never ends in an \<open>HTTPException\<close>.
\<close>

theorem C9_history_validation:
  "(sh_hours body \<notin> {1, 4, 12, 24}
      \<longrightarrow> sensor_history connect body ctx
            = (Inl (HTTPException 400 ''hours must be 1, 4, 12, or 24''), []))
   \<and> (sh_hours body \<in> {1, 4, 12, 24}
        \<and> normalize_source (sh_sensor_source body) = ''tracking''
        \<and> sh_sensor_input_label body \<notin> set TRACKING_DATA_CORE_SIGNALS
      \<longrightarrow> sensor_history connect body ctx
            = (Inl (HTTPException 400 ''sensor_input_label not allowed for tracking source''), []))
   \<and> (sh_hours body \<in> {1, 4, 12, 24}
        \<and> (normalize_source (sh_sensor_source body) = ''tracking''
              \<longrightarrow> sh_sensor_input_label body \<in> set TRACKING_DATA_CORE_SIGNALS)
      \<longrightarrow> (\<forall>code detail. fst (sensor_history connect body ctx) \<noteq> Inl (HTTPException code detail)))"
proof (intro conjI impI allI)
  assume "sh_hours body \<notin> {1, 4, 12, 24}"
  then show "sensor_history connect body ctx
            = (Inl (HTTPException 400 ''hours must be 1, 4, 12, or 24''), [])"
    by (simp add: sensor_history_def hours_error_def)
next
  assume "sh_hours body \<in> {1, 4, 12, 24}
        \<and> normalize_source (sh_sensor_source body) = ''tracking''
        \<and> sh_sensor_input_label body \<notin> set TRACKING_DATA_CORE_SIGNALS"
  then show "sensor_history connect body ctx
            = (Inl (HTTPException 400 ''sensor_input_label not allowed for tracking source''), [])"
    by (auto simp: sensor_history_def label_error_def Let_def)
next
  fix code detail
  assume a: "sh_hours body \<in> {1, 4, 12, 24}
        \<and> (normalize_source (sh_sensor_source body) = ''tracking''
              \<longrightarrow> sh_sensor_input_label body \<in> set TRACKING_DATA_CORE_SIGNALS)"
  show "fst (sensor_history connect body ctx) \<noteq> Inl (HTTPException code detail)"
  proof (cases "connect (dsn ctx)")
    case (Inl m)
    with a show ?thesis by (auto simp: sensor_history_def Let_def)
  next
    case (Inr wh)
    with a show ?thesis
      by (auto simp: sensor_history_def Let_def then_do_def run_query_def
               split: sum.splits prod.splits)
  qed
qed


theorem C9_history_validation_witness:
  "sensor_history example_connect
      \<lparr> sh_device_id = 10, sh_sensor_input_label = ''temp'', sh_sensor_source = ''input'', sh_hours = 3 \<rparr>
      example_context
     = (Inl (HTTPException 400 ''hours must be 1, 4, 12, or 24''), [])
   \<and> sensor_history example_connect
      \<lparr> sh_device_id = 10, sh_sensor_input_label = ''speed; DROP TABLE t'',
        sh_sensor_source = '' Tracking '', sh_hours = 4 \<rparr>
      example_context
     = (Inl (HTTPException 400 ''sensor_input_label not allowed for tracking source''), [])
   \<and> sensor_history example_connect
      \<lparr> sh_device_id = 10, sh_sensor_input_label = ''speed'', sh_sensor_source = ''tracking'', sh_hours = 24 \<rparr>
      example_context
     = (Inr [], [HasTimeBucket, TrackingHistory False ''speed'' 10 24])"
proof -
  have a: "sensor_history example_connect
      \<lparr> sh_device_id = 10, sh_sensor_input_label = ''temp'', sh_sensor_source = ''input'', sh_hours = 3 \<rparr>
      example_context
     = (Inl (HTTPException 400 ''hours must be 1, 4, 12, or 24''), [])"
    using C9_history_validation [of "\<lparr> sh_device_id = 10, sh_sensor_input_label = ''temp'', sh_sensor_source = ''input'',
                    sh_hours = 3 \<rparr>" example_connect example_context]
    by simp
  have b: "sensor_history example_connect
      \<lparr> sh_device_id = 10, sh_sensor_input_label = ''speed; DROP TABLE t'',
        sh_sensor_source = '' Tracking '', sh_hours = 4 \<rparr>
      example_context
     = (Inl (HTTPException 400 ''sensor_input_label not allowed for tracking source''), [])"
    using C9_history_validation [of "\<lparr> sh_device_id = 10, sh_sensor_input_label = ''speed; DROP TABLE t'',
                    sh_sensor_source = '' Tracking '', sh_hours = 4 \<rparr>" example_connect example_context]
    by (simp add: TRACKING_DATA_CORE_SIGNALS_def)
  have "\<forall>code detail. fst (sensor_history example_connect
      \<lparr> sh_device_id = 10, sh_sensor_input_label = ''speed'', sh_sensor_source = ''tracking'', sh_hours = 24 \<rparr>
      example_context) \<noteq> Inl (HTTPException code detail)"
    using C9_history_validation [of "\<lparr> sh_device_id = 10, sh_sensor_input_label = ''speed'',
                    sh_sensor_source = ''tracking'', sh_hours = 24 \<rparr>" example_connect example_context]
    by (simp add: TRACKING_DATA_CORE_SIGNALS_def)
  moreover have c: "sensor_history example_connect
      \<lparr> sh_device_id = 10, sh_sensor_input_label = ''speed'', sh_sensor_source = ''tracking'', sh_hours = 24 \<rparr>
      example_context
     = (Inr [], [HasTimeBucket, TrackingHistory False ''speed'' 10 24])"
    by (simp add: sensor_history_def TRACKING_DATA_CORE_SIGNALS_def example_connect_def
          then_do_def run_query_def has_tb_of_def)
  ultimately show ?thesis using a b by simp
qed

section \<open>Verification: the application-state store\<close>

subsection \<open>What the handlers do to the databases\<close>


lemma sqlite_names:
  assumes "conn_backend c = Sqlite"
  shows "cfg_rows c (app_state_table app_state_schema_default ''configured_sensors'')
           = Inl (no_table Sqlite ''app_sensoriqua.configured_sensors'')"
    and "dp_rows c (app_state_table app_state_schema_default ''dashboard_planes'')
           = Inl (no_table Sqlite ''app_sensoriqua.dashboard_planes'')"
  using assms
  by (simp_all add: cfg_rows_def dp_rows_def app_state_table_def app_state_schema_default_def
        table_name_def)

lemma postgres_names:
  assumes "conn_backend c = Postgres"
  shows "cfg_rows c (app_state_table app_state_schema_default ''configured_sensors'')
           = (case configured_sensors (conn_tables c) of
                None \<Rightarrow> Inl (no_table Postgres ''app_sensoriqua.configured_sensors'')
              | Some rows \<Rightarrow> Inr rows)"
    and "dp_rows c (app_state_table app_state_schema_default ''dashboard_planes'')
           = (case dashboard_planes (conn_tables c) of
                None \<Rightarrow> Inl (no_table Postgres ''app_sensoriqua.dashboard_planes'')
              | Some rows \<Rightarrow> Inr rows)"
  using assms
  by (simp_all add: cfg_rows_def dp_rows_def app_state_table_def app_state_schema_default_def
        table_name_def split: option.splits)

lemma world_ok_no_planes: "no_planes w \<Longrightarrow> world_ok w"
  by (auto simp: no_planes_def world_ok_def store_ok_def)

lemma open_sqlite_err:
  assumes "open_sqlite_app_state w path = (Inl e, w1)"
  shows "w1 = w"
  using assms by (auto simp: open_sqlite_app_state_def Let_def split: if_splits)

lemma open_sqlite_ok:
  assumes "open_sqlite_app_state w path = (Inr c, w1)" "world_ok w"
  shows "world_ok w1" "store_at w1 c = Some (conn_tables c)" "conn_backend c = Sqlite"
        "planes_of (conn_tables c) = []"
proof -
  define t0 where "t0 = (case sqlite_files w path of
                  None \<Rightarrow> \<lparr> configured_sensors = None, dashboard_planes = None,
                             cfg_seq = 0, dp_seq = 0, objects = None \<rparr>
                | Some t \<Rightarrow> t)"
  define t1 where "t1 = t0\<lparr> configured_sensors :=
                      (case configured_sensors t0 of None \<Rightarrow> Some [] | Some rows \<Rightarrow> Some rows),
                    dashboard_planes :=
                      (case dashboard_planes t0 of None \<Rightarrow> Some [] | Some rows \<Rightarrow> Some rows) \<rparr>"
  have c: "c = \<lparr> conn_backend = Sqlite, conn_key = path, conn_tables = t1 \<rparr>"
    and w1: "w1 = w\<lparr> sqlite_files := (sqlite_files w)(path \<mapsto> t1) \<rparr>"
    using assms(1) by (auto simp: open_sqlite_app_state_def Let_def t0_def t1_def split: if_splits)
  have p0: "planes_of t0 = []"
    using assms(2) by (auto simp: t0_def world_ok_def planes_of_def split: option.splits)
  then have p1: "planes_of t1 = []"
    by (auto simp: t1_def planes_of_def split: option.splits)
  show "conn_backend c = Sqlite" by (simp add: c)
  show "planes_of (conn_tables c) = []" using p1 by (simp add: c)
  show "store_at w1 c = Some (conn_tables c)" by (simp add: store_at_def c w1)
  show "world_ok w1" using assms(2) p1 by (auto simp: world_ok_def w1)
qed

lemma get_app_state_conn_ok:
  assumes "get_app_state_conn cfg w override = (Inr c, w1)" "world_ok w"
  shows "world_ok w1" "store_at w1 c = Some (conn_tables c)"
        "conn_backend c = Sqlite \<longrightarrow> planes_of (conn_tables c) = []"
        "conn_backend c = Postgres \<longrightarrow> w1 = w"
proof -
  show "world_ok w1" "store_at w1 c = Some (conn_tables c)"
        "conn_backend c = Sqlite \<longrightarrow> planes_of (conn_tables c) = []"
        "conn_backend c = Postgres \<longrightarrow> w1 = w"
    using assms
    by (auto simp: get_app_state_conn_def get_conn_def Let_def store_at_def world_ok_def
             split: option.splits if_splits sum.splits prod.splits
             dest: open_sqlite_ok)
qed

lemma get_app_state_conn_err:
  assumes "get_app_state_conn cfg w override = (Inl e, w1)"
  shows "w1 = w"
  using assms
  by (auto simp: get_app_state_conn_def get_conn_def Let_def
           split: option.splits if_splits sum.splits prod.splits dest: open_sqlite_err)

lemma commit_ok:
  assumes "world_ok w1"
      and "conn_backend c = Postgres \<longrightarrow> store_ok (conn_tables c)"
      and "conn_backend c = Sqlite \<longrightarrow> planes_of (conn_tables c) = []"
  shows "world_ok (commit c w1)"
  using assms by (cases "conn_backend c") (auto simp: world_ok_def commit_def)


lemma store_at_ok:
  assumes "world_ok w1" "store_at w1 c = Some t"
  shows "conn_backend c = Postgres \<longrightarrow> store_ok t"
    and "conn_backend c = Sqlite \<longrightarrow> planes_of t = []"
  using assms by (auto simp: world_ok_def store_at_def split: backend.splits)

lemma commit_same_planes:
  assumes "world_ok w1" "store_at w1 c = Some (conn_tables c)" "same_planes c c'"
  shows "world_ok (commit c' w1)"
proof (rule commit_ok[OF assms(1)])
  have eq: "planes_of (conn_tables c') = planes_of (conn_tables c)"
    "dp_seq (conn_tables c') = dp_seq (conn_tables c)" "conn_backend c' = conn_backend c"
    using assms(3) by (simp_all add: same_planes_def planes_of_def)
  then have ok: "store_ok (conn_tables c') = store_ok (conn_tables c)"
    by (simp add: store_ok_def)
  show "conn_backend c' = Postgres \<longrightarrow> store_ok (conn_tables c')"
    using store_at_ok(1)[OF assms(1,2)] eq ok by simp
  show "conn_backend c' = Sqlite \<longrightarrow> planes_of (conn_tables c') = []"
    using store_at_ok(2)[OF assms(1,2)] eq by simp
qed

lemma insert_configured_sensor_same:
  assumes "insert_configured_sensor c name now uid body source = Inr (row, c')"
  shows "same_planes c c'"
  using assms
  by (auto simp: insert_configured_sensor_def Let_def same_planes_def split: sum.splits)

lemma update_sensor_rows_same:
  assumes "update_sensor_rows c name now sid uid body = Inr (n, c')"
  shows "same_planes c c'"
  using assms
  by (auto simp: update_sensor_rows_def Let_def same_planes_def split: sum.splits if_splits)

lemma list_configured_sensors_world:
  assumes "list_configured_sensors cfg w ctx = (r, w')"
  shows "\<exists>x. get_app_state_conn cfg w (app_state_dsn ctx) = (x, w')"
  using assms
  by (auto simp: list_configured_sensors_def Let_def split: prod.splits sum.splits)

lemma list_dashboard_planes_world:
  assumes "list_dashboard_planes cfg w ctx = (r, w')"
  shows "\<exists>x. get_app_state_conn cfg w (app_state_dsn ctx) = (x, w')"
  using assms
  by (auto simp: list_dashboard_planes_def Let_def split: prod.splits sum.splits)

lemma open_world_ok:
  assumes "get_app_state_conn cfg w override = (x, w1)" "world_ok w"
  shows "world_ok w1"
proof (cases x)
  case (Inl e)
  with assms show ?thesis using get_app_state_conn_err by blast
next
  case (Inr c)
  with assms show ?thesis using get_app_state_conn_ok(1) by blast
qed

lemma add_configured_sensor_ok:
  assumes "add_configured_sensor cfg now w body ctx = (r, w')" "world_ok w"
  shows "world_ok w'"
proof (cases "min_not_below_max (csc_min_threshold body) (csc_max_threshold body)")
  case True
  with assms show ?thesis by (simp add: add_configured_sensor_def)
next
  case False
  obtain x w1 where op: "get_app_state_conn cfg w (app_state_dsn ctx) = (x, w1)"
    by (cases "get_app_state_conn cfg w (app_state_dsn ctx)")
  have ok1: "world_ok w1" using op assms(2) by (rule open_world_ok)
  show ?thesis
  proof (cases x)
    case (Inl e)
    with assms(1) False op ok1 show ?thesis by (simp add: add_configured_sensor_def Let_def)
  next
    case (Inr c)
    note st = get_app_state_conn_ok(2)[OF op[unfolded Inr] assms(2)]
    show ?thesis
    proof (cases "insert_configured_sensor c
                    (app_state_table app_state_schema_default ''configured_sensors'') now
                    (user_id ctx) body (normalize_source (csc_sensor_source body))")
      case (Inl e)
      with assms(1) False op Inr ok1 show ?thesis by (simp add: add_configured_sensor_def Let_def)
    next
      case ins: (Inr rc)
      obtain row c' where rc: "rc = (row, c')" by (cases rc)
      have "same_planes c c'" using ins rc insert_configured_sensor_same by blast
      then have "world_ok (commit c' w1)" using commit_same_planes[OF ok1 st] by blast
      moreover have "w' = commit c' w1"
        using assms(1) False op Inr ins rc
        by (auto simp: add_configured_sensor_def Let_def split: sum.splits)
      ultimately show ?thesis by simp
    qed
  qed
qed


lemma update_configured_sensor_ok:
  assumes "update_configured_sensor cfg now w sid body ctx = (r, w')" "world_ok w"
  shows "world_ok w'"
proof (cases "min_not_below_max (attr (csu_min_threshold body)) (attr (csu_max_threshold body))")
  case True
  with assms show ?thesis by (simp add: update_configured_sensor_def)
next
  case False
  obtain x w1 where op: "get_app_state_conn cfg w (app_state_dsn ctx) = (x, w1)"
    by (cases "get_app_state_conn cfg w (app_state_dsn ctx)")
  have ok1: "world_ok w1" using op assms(2) by (rule open_world_ok)
  show ?thesis
  proof (cases x)
    case (Inl e)
    with assms(1) False op ok1 show ?thesis by (simp add: update_configured_sensor_def Let_def)
  next
    case (Inr c)
    note st = get_app_state_conn_ok(2)[OF op[unfolded Inr] assms(2)]
    show ?thesis
    proof (cases "update_sensor_rows c
                    (app_state_table app_state_schema_default ''configured_sensors'') now sid
                    (user_id ctx) body")
      case (Inl e)
      with assms(1) False op Inr ok1 show ?thesis
        by (auto simp: update_configured_sensor_def Let_def split: if_splits)
    next
      case upd: (Inr nc)
      obtain n c' where nc: "nc = (n, c')" by (cases nc)
      have "same_planes c c'" using upd nc update_sensor_rows_same by blast
      then have "world_ok (commit c' w1)" using commit_same_planes[OF ok1 st] by blast
      moreover have "w' = commit c' w1 \<or> w' = w1"
        using assms(1) False op Inr upd nc
        by (auto simp: update_configured_sensor_def Let_def split: if_splits)
      ultimately show ?thesis using ok1 by auto
    qed
  qed
qed

lemma delete_configured_sensor_ok:
  assumes "delete_configured_sensor cfg now w sid ctx = (r, w')" "world_ok w"
  shows "world_ok w'"
proof -
  obtain x w1 where op: "get_app_state_conn cfg w (app_state_dsn ctx) = (x, w1)"
    by (cases "get_app_state_conn cfg w (app_state_dsn ctx)")
  have ok1: "world_ok w1" using op assms(2) by (rule open_world_ok)
  show ?thesis
  proof (cases x)
    case (Inl e)
    with assms(1) op ok1 show ?thesis by (simp add: delete_configured_sensor_def Let_def)
  next
    case (Inr c)
    note st = get_app_state_conn_ok(2)[OF op[unfolded Inr] assms(2)]
    show ?thesis
    proof (cases "cfg_rows c (app_state_table app_state_schema_default ''configured_sensors'')")
      case (Inl e)
      with assms(1) op Inr ok1 show ?thesis by (simp add: delete_configured_sensor_def Let_def)
    next
      case rows: (Inr rows)
      define c' where "c' = c\<lparr> conn_tables := (conn_tables c)
                               \<lparr> configured_sensors :=
                                   Some (map (\<lambda>r. if configured_sensor_id r = sid \<and> cs_user_id r = user_id ctx
                                                    then r\<lparr> is_active := False, updated_at := now \<rparr>
                                                    else r) rows) \<rparr> \<rparr>"
      have "same_planes c c'" by (simp add: same_planes_def c'_def)
      then have "world_ok (commit c' w1)" using commit_same_planes[OF ok1 st] by blast
      moreover have "w' = commit c' w1"
        using assms(1) op Inr rows
        by (auto simp: delete_configured_sensor_def Let_def c'_def split: if_splits)
      ultimately show ?thesis by simp
    qed
  qed
qed

lemma upsert_plane_hit:
  assumes "find (\<lambda>r. dp_user_id r = uid \<and> dp_configured_sensor_id r = sid) rows = Some old"
  shows "upsert_plane rows new_id now uid sid pos
           = (old\<lparr> position_index := pos \<rparr>,
              map (\<lambda>r. if dp_user_id r = uid \<and> dp_configured_sensor_id r = sid
                        then r\<lparr> position_index := pos \<rparr> else r) rows)"
  using assms by (simp add: upsert_plane_def)

lemma upsert_plane_miss:
  assumes "find (\<lambda>r. dp_user_id r = uid \<and> dp_configured_sensor_id r = sid) rows = None"
  shows "upsert_plane rows new_id now uid sid pos
           = (\<lparr> dashboard_plane_id = new_id, dp_user_id = uid, dp_configured_sensor_id = sid,
                position_index = pos, dp_created_at = now \<rparr>,
              rows @ [\<lparr> dashboard_plane_id = new_id, dp_user_id = uid, dp_configured_sensor_id = sid,
                        position_index = pos, dp_created_at = now \<rparr>])"
  using assms by (simp add: upsert_plane_def Let_def)

lemma map_position_update:
  "map plane_pair (map (\<lambda>r. if P r then r\<lparr> position_index := pos \<rparr> else r) rows) = map plane_pair rows"
  "map dashboard_plane_id (map (\<lambda>r. if P r then r\<lparr> position_index := pos \<rparr> else r) rows)
     = map dashboard_plane_id rows"
  by (induction rows) (auto simp: plane_pair_def)

lemma upsert_plane_ok:
  assumes "distinct (map plane_pair rows)" "distinct (map dashboard_plane_id rows)"
      and "\<forall>r \<in> set rows. dashboard_plane_id r \<le> seq"
      and "upsert_plane rows (seq + 1) now uid sid pos = (row, rows')"
  shows "distinct (map plane_pair rows') \<and> distinct (map dashboard_plane_id rows')
         \<and> (\<forall>r \<in> set rows'. dashboard_plane_id r \<le> seq + 1)"
proof (cases "find (\<lambda>r. dp_user_id r = uid \<and> dp_configured_sensor_id r = sid) rows")
  case None
  then have no: "\<forall>r \<in> set rows. plane_pair r \<noteq> (uid, sid)"
    by (auto simp: find_None_iff plane_pair_def)
  from assms(4) upsert_plane_miss[OF None]
  have rows': "rows' = rows @ [\<lparr> dashboard_plane_id = seq + 1, dp_user_id = uid,
                  dp_configured_sensor_id = sid, position_index = pos, dp_created_at = now \<rparr>]"
    by auto
  show ?thesis
    using assms(1,2,3) no unfolding rows' by (fastforce simp: plane_pair_def)
next
  case (Some old)
  from assms(4) upsert_plane_hit[OF Some]
  have rows': "rows' = map (\<lambda>r. if dp_user_id r = uid \<and> dp_configured_sensor_id r = sid
                        then r\<lparr> position_index := pos \<rparr> else r) rows"
    by simp
  have "set (map dashboard_plane_id rows') = set (map dashboard_plane_id rows)"
    unfolding rows' by (simp only: map_position_update)
  then have "\<forall>r \<in> set rows'. dashboard_plane_id r \<le> seq"
    using assms(3) by (metis (no_types, lifting) image_iff list.set_map)
  then show ?thesis
    using assms(1,2) unfolding rows' by (force simp only: map_position_update)
qed


lemma is_active_test_postgres:
  "is_active_test Postgres (if app_state_uses_sqlite cfg then ''1'' else ''true'')
     = (if app_state_uses_sqlite cfg
        then Some (DatabaseError ''operator does not exist: boolean = integer'') else None)"
  by (simp add: is_active_test_def)

lemma add_dashboard_plane_sqlite:
  assumes "get_app_state_conn cfg w (app_state_dsn ctx) = (Inr c, w1)" "conn_backend c = Sqlite"
  shows "add_dashboard_plane cfg now w body ctx
           = (Inl (no_table Sqlite ''app_sensoriqua.configured_sensors''), w1)"
  using assms by (simp add: add_dashboard_plane_def Let_def sqlite_names)

lemma add_dashboard_plane_postgres:
  assumes "get_app_state_conn cfg w (app_state_dsn ctx) = (Inr c, w1)" "conn_backend c = Postgres"
  shows "add_dashboard_plane cfg now w body ctx =
     (case configured_sensors (conn_tables c) of
        None \<Rightarrow> (Inl (no_table Postgres ''app_sensoriqua.configured_sensors''), w1)
      | Some crows \<Rightarrow>
          (if app_state_uses_sqlite cfg
           then (Inl (DatabaseError ''operator does not exist: boolean = integer''), w1)
           else if \<not> list_ex (\<lambda>r. configured_sensor_id r = dpc_configured_sensor_id body
                                   \<and> cs_user_id r = user_id ctx \<and> is_active r) crows
           then (Inl (HTTPException 403 ''Configured sensor not found or access denied''), w1)
           else (case dashboard_planes (conn_tables c) of
                   None \<Rightarrow> (Inl (no_table Postgres ''app_sensoriqua.dashboard_planes''), w1)
                 | Some drows \<Rightarrow>
                     if \<not> int4 (dpc_position_index body)
                     then (Inl (DatabaseError ''integer out of range''), w1)
                     else
                     (Inr (fst (upsert_plane drows (dp_seq (conn_tables c) + 1) now (user_id ctx)
                                 (dpc_configured_sensor_id body) (dpc_position_index body))),
                      commit (c\<lparr> conn_tables := (conn_tables c)
                                  \<lparr> dashboard_planes :=
                                      Some (snd (upsert_plane drows (dp_seq (conn_tables c) + 1) now
                                                   (user_id ctx) (dpc_configured_sensor_id body)
                                                   (dpc_position_index body))),
                                    dp_seq := dp_seq (conn_tables c) + 1 \<rparr> \<rparr>) w1))))"
proof (cases "app_state_uses_sqlite cfg")
  case True
  with assms show ?thesis
    by (simp add: add_dashboard_plane_def Let_def postgres_names is_active_test_def
             split: option.splits)
next
  case False
  with assms show ?thesis
    by (simp add: add_dashboard_plane_def Let_def postgres_names is_active_test_def
             split: option.splits prod.splits)
qed

lemma add_dashboard_plane_ok:
  assumes "add_dashboard_plane cfg now w body ctx = (r, w')" "world_ok w"
  shows "world_ok w'"
proof -
  obtain x w1 where op: "get_app_state_conn cfg w (app_state_dsn ctx) = (x, w1)"
    by (cases "get_app_state_conn cfg w (app_state_dsn ctx)")
  have ok1: "world_ok w1" using op assms(2) by (rule open_world_ok)
  show ?thesis
  proof (cases x)
    case (Inl e)
    with assms(1) op ok1 show ?thesis by (simp add: add_dashboard_plane_def Let_def)
  next
    case (Inr c)
    note opc = op[unfolded Inr]
    note st = get_app_state_conn_ok(2)[OF opc assms(2)]
    show ?thesis
    proof (cases "conn_backend c")
      case Sqlite
      from add_dashboard_plane_sqlite[OF opc Sqlite] assms(1) ok1 show ?thesis by simp
    next
      case Postgres
      note eq = add_dashboard_plane_postgres[OF opc Postgres, of now body]
      show ?thesis
      proof (cases "\<exists>crows drows. configured_sensors (conn_tables c) = Some crows
                      \<and> \<not> app_state_uses_sqlite cfg \<and> int4 (dpc_position_index body)
                      \<and> list_ex (\<lambda>r. configured_sensor_id r = dpc_configured_sensor_id body
                                   \<and> cs_user_id r = user_id ctx \<and> is_active r) crows
                      \<and> dashboard_planes (conn_tables c) = Some drows")
        case False
        then have "w' = w1" using assms(1) eq by (auto split: option.splits if_splits)
        with ok1 show ?thesis by simp
      next
        case True
        then obtain crows drows where h: "configured_sensors (conn_tables c) = Some crows"
          "\<not> app_state_uses_sqlite cfg" "int4 (dpc_position_index body)"
          "list_ex (\<lambda>r. configured_sensor_id r = dpc_configured_sensor_id body
                                   \<and> cs_user_id r = user_id ctx \<and> is_active r) crows"
          "dashboard_planes (conn_tables c) = Some drows"
          by blast
        obtain row drows' where up: "upsert_plane drows (dp_seq (conn_tables c) + 1) now (user_id ctx)
                                 (dpc_configured_sensor_id body) (dpc_position_index body) = (row, drows')"
          by (cases "upsert_plane drows (dp_seq (conn_tables c) + 1) now (user_id ctx)
                                 (dpc_configured_sensor_id body) (dpc_position_index body)")
        define c' where "c' = c\<lparr> conn_tables := (conn_tables c)
                                  \<lparr> dashboard_planes := Some drows',
                                    dp_seq := dp_seq (conn_tables c) + 1 \<rparr> \<rparr>"
        have w': "w' = commit c' w1" using assms(1) eq h up by (simp add: c'_def)
        have "store_ok (conn_tables c)" using store_at_ok(1)[OF ok1 st] Postgres by simp
        then have "distinct (map plane_pair drows)" "distinct (map dashboard_plane_id drows)"
          "\<forall>r \<in> set drows. dashboard_plane_id r \<le> dp_seq (conn_tables c)"
          using h(5) by (simp_all add: store_ok_def planes_of_def)
        from upsert_plane_ok[OF this up] have "store_ok (conn_tables c')"
          by (simp add: store_ok_def planes_of_def c'_def)
        then have "world_ok (commit c' w1)"
          using commit_ok[OF ok1, of c'] Postgres by (simp add: c'_def)
        with w' show ?thesis by simp
      qed
    qed
  qed
qed

lemma remove_dashboard_plane_sqlite:
  assumes "get_app_state_conn cfg w (app_state_dsn ctx) = (Inr c, w1)" "conn_backend c = Sqlite"
  shows "remove_dashboard_plane cfg w pid ctx
           = (Inl (no_table Sqlite ''app_sensoriqua.dashboard_planes''), w1)"
  using assms by (simp add: remove_dashboard_plane_def Let_def sqlite_names)

lemma remove_dashboard_plane_postgres:
  assumes "get_app_state_conn cfg w (app_state_dsn ctx) = (Inr c, w1)" "conn_backend c = Postgres"
  shows "remove_dashboard_plane cfg w pid ctx =
     (case dashboard_planes (conn_tables c) of
        None \<Rightarrow> (Inl (no_table Postgres ''app_sensoriqua.dashboard_planes''), w1)
      | Some drows \<Rightarrow>
          (if filter (\<lambda>r. dashboard_plane_id r = pid \<and> dp_user_id r = user_id ctx) drows = []
           then Inl (HTTPException 404 ''Dashboard plane not found'') else Inr (),
           commit (c\<lparr> conn_tables := (conn_tables c)
                       \<lparr> dashboard_planes :=
                           Some (filter (\<lambda>r. \<not> (dashboard_plane_id r = pid \<and> dp_user_id r = user_id ctx))
                                   drows) \<rparr> \<rparr>) w1))"
  using assms
  by (simp add: remove_dashboard_plane_def Let_def postgres_names split: option.splits)

lemma store_ok_filter:
  assumes "store_ok t" "dashboard_planes t = Some rows"
  shows "store_ok (t\<lparr> dashboard_planes := Some (filter P rows) \<rparr>)"
  using assms by (auto simp: store_ok_def planes_of_def distinct_map_filter)

lemma remove_dashboard_plane_ok:
  assumes "remove_dashboard_plane cfg w pid ctx = (r, w')" "world_ok w"
  shows "world_ok w'"
proof -
  obtain x w1 where op: "get_app_state_conn cfg w (app_state_dsn ctx) = (x, w1)"
    by (cases "get_app_state_conn cfg w (app_state_dsn ctx)")
  have ok1: "world_ok w1" using op assms(2) by (rule open_world_ok)
  show ?thesis
  proof (cases x)
    case (Inl e)
    with assms(1) op ok1 show ?thesis by (simp add: remove_dashboard_plane_def Let_def)
  next
    case (Inr c)
    note opc = op[unfolded Inr]
    note st = get_app_state_conn_ok(2)[OF opc assms(2)]
    show ?thesis
    proof (cases "conn_backend c")
      case Sqlite
      from remove_dashboard_plane_sqlite[OF opc Sqlite] assms(1) ok1 show ?thesis by simp
    next
      case Postgres
      note eq = remove_dashboard_plane_postgres[OF opc Postgres, of pid]
      show ?thesis
      proof (cases "dashboard_planes (conn_tables c)")
        case None
        with eq assms(1) ok1 show ?thesis by simp
      next
        case (Some drows)
        define c' where "c' = c\<lparr> conn_tables := (conn_tables c)
                       \<lparr> dashboard_planes :=
                           Some (filter (\<lambda>r. \<not> (dashboard_plane_id r = pid \<and> dp_user_id r = user_id ctx))
                                   drows) \<rparr> \<rparr>"
        have w': "w' = commit c' w1" using eq assms(1) Some by (simp add: c'_def)
        have before: "store_ok (conn_tables c)"
          using store_at_ok(1)[OF ok1 st] Postgres by simp
        have "store_ok (conn_tables c')"
          using store_ok_filter[OF before Some] by (simp add: c'_def)
        then have "world_ok (commit c' w1)"
          using commit_ok[OF ok1, of c'] Postgres by (simp add: c'_def)
        with w' show ?thesis by simp
      qed
    qed
  qed
qed



lemma planes_like_refl: "planes_like c c"
  by (simp add: planes_like_def)

lemma planes_like_trans: "planes_like c c' \<Longrightarrow> planes_like c' c'' \<Longrightarrow> planes_like c c''"
  by (simp add: planes_like_def)

lemma planes_like_update:
  assumes "planes_of (conn_tables c) = drows"
  shows "planes_like c (c\<lparr> conn_tables := (conn_tables c)
                \<lparr> dashboard_planes :=
                    Some (map (\<lambda>r. if P r then r\<lparr> position_index := i \<rparr> else r) drows) \<rparr> \<rparr>)"
proof -
  have "planes_of ((conn_tables c)
          \<lparr> dashboard_planes :=
              Some (map (\<lambda>r. if P r then r\<lparr> position_index := i \<rparr> else r) drows) \<rparr>)
        = map (\<lambda>r. if P r then r\<lparr> position_index := i \<rparr> else r) drows"
    by (simp add: planes_of_def)
  then show ?thesis
    by (simp add: planes_like_def map_position_update assms plane_pair_def)
qed

lemma update_position_like:
  assumes "update_position c name uid pid idx = Inr c'"
  shows "planes_like c c'"
proof -
  from assms obtain drows where h: "dp_rows c name = Inr drows"
    by (auto simp: update_position_def Let_def split: sum.splits if_splits)
  then have "planes_of (conn_tables c) = drows"
    by (auto simp: dp_rows_def planes_of_def split: if_splits option.splits)
  from planes_like_update[OF this] assms h show ?thesis
    by (auto simp: update_position_def Let_def planes_like_refl
             split: sum.splits option.splits if_splits)
qed

lemma reorder_items_like:
  assumes "reorder_items c name uid items = Inr c'"
  shows "planes_like c c'"
  using assms
proof (induction items arbitrary: c)
  case Nil
  then show ?case by (simp add: planes_like_refl)
next
  case (Cons item items)
  show ?case
  proof (cases "dict_get item ''dashboard_plane_id'' = PNone")
    case True
    with Cons show ?thesis by simp
  next
    case False
    let ?idx = "case map_of item ''position_index'' of None \<Rightarrow> PInt 0 | Some v \<Rightarrow> v"
    from Cons.prems False obtain c1 where
      c1: "update_position c name uid (dict_get item ''dashboard_plane_id'') ?idx = Inr c1"
      and rest: "reorder_items c1 name uid items = Inr c'"
      by (auto simp: Let_def split: sum.splits)
    from update_position_like[OF c1] Cons.IH[OF rest] show ?thesis
      by (rule planes_like_trans)
  qed
qed

lemma commit_planes_like:
  assumes "world_ok w1" "store_at w1 c = Some (conn_tables c)" "planes_like c c'"
  shows "world_ok (commit c' w1)"
proof (rule commit_ok[OF assms(1)])
  have eq: "map plane_pair (planes_of (conn_tables c')) = map plane_pair (planes_of (conn_tables c))"
    "map dashboard_plane_id (planes_of (conn_tables c')) = map dashboard_plane_id (planes_of (conn_tables c))"
    "dp_seq (conn_tables c') = dp_seq (conn_tables c)" "conn_backend c' = conn_backend c"
    using assms(3) by (simp_all add: planes_like_def)
  have ids: "dashboard_plane_id ` set (planes_of (conn_tables c'))
               = dashboard_plane_id ` set (planes_of (conn_tables c))"
    using eq(2) by (metis list.set_map)
  have ok: "store_ok (conn_tables c) \<Longrightarrow> store_ok (conn_tables c')"
    unfolding store_ok_def using eq ids by (metis (no_types, lifting) image_iff)
  have emp: "planes_of (conn_tables c) = [] \<Longrightarrow> planes_of (conn_tables c') = []"
    using eq(1) by (metis map_is_Nil_conv)
  show "conn_backend c' = Postgres \<longrightarrow> store_ok (conn_tables c')"
    using store_at_ok(1)[OF assms(1,2)] eq(4) ok by simp
  show "conn_backend c' = Sqlite \<longrightarrow> planes_of (conn_tables c') = []"
    using store_at_ok(2)[OF assms(1,2)] eq(4) emp by simp
qed

lemma reorder_dashboard_planes_ok:
  assumes "reorder_dashboard_planes cfg w order ctx = (r, w')" "world_ok w"
  shows "world_ok w'"
proof -
  obtain x w1 where op: "get_app_state_conn cfg w (app_state_dsn ctx) = (x, w1)"
    by (cases "get_app_state_conn cfg w (app_state_dsn ctx)")
  have ok1: "world_ok w1" using op assms(2) by (rule open_world_ok)
  show ?thesis
  proof (cases x)
    case (Inl e)
    with assms(1) op ok1 show ?thesis by (simp add: reorder_dashboard_planes_def Let_def)
  next
    case (Inr c)
    note st = get_app_state_conn_ok(2)[OF op[unfolded Inr] assms(2)]
    show ?thesis
    proof (cases "reorder_items c (app_state_table app_state_schema_default ''dashboard_planes'')
                    (user_id ctx) order")
      case (Inl e)
      with assms(1) op Inr ok1 show ?thesis by (simp add: reorder_dashboard_planes_def Let_def)
    next
      case ri: (Inr c')
      have "world_ok (commit c' w1)"
        using commit_planes_like[OF ok1 st reorder_items_like[OF ri]] .
      moreover have "w' = commit c' w1"
        using assms(1) op Inr ri by (simp add: reorder_dashboard_planes_def Let_def)
      ultimately show ?thesis by simp
    qed
  qed
qed

lemma world_step_ok:
  assumes "world_step cfg w w'" "world_ok w"
  shows "world_ok w'"
  using assms
proof (cases rule: world_step.cases)
  case (list_sensors ctx r1)
  from list_configured_sensors_world[OF this] assms(2) show ?thesis
    using open_world_ok by blast
next
  case (add_sensor now body ctx r2)
  then show ?thesis using assms(2) by (rule add_configured_sensor_ok)
next
  case (update_sensor now sid ubody ctx r3)
  then show ?thesis using assms(2) by (rule update_configured_sensor_ok)
next
  case (delete_sensor now sid ctx r4)
  then show ?thesis using assms(2) by (rule delete_configured_sensor_ok)
next
  case (list_planes ctx r5)
  from list_dashboard_planes_world[OF this] assms(2) show ?thesis
    using open_world_ok by blast
next
  case (add_plane now pbody ctx r6)
  then show ?thesis using assms(2) by (rule add_dashboard_plane_ok)
next
  case (remove_plane pid ctx r7)
  then show ?thesis using assms(2) by (rule remove_dashboard_plane_ok)
next
  case (reorder_planes order ctx r8)
  then show ?thesis using assms(2) by (rule reorder_dashboard_planes_ok)
qed

lemma world_steps_ok:
  assumes "rtranclp (world_step cfg) w0 w" "no_planes w0"
  shows "world_ok w"
  using assms
  by (induction rule: rtranclp_induct) (auto intro: world_step_ok world_ok_no_planes)

lemma store_steps_ok:
  assumes "rtranclp store_step w0 w" "no_planes w0"
  shows "world_ok w"
  using assms
  by (induction rule: rtranclp_induct)
     (auto intro: world_step_ok world_ok_no_planes elim: store_step.cases)



lemma open_sqlite_frame:
  assumes "open_sqlite_app_state w path = (x, w1)"
  shows "pg_dbs w1 = pg_dbs w"
    and "sqlite_files w p = Some t \<Longrightarrow> \<exists>t'. sqlite_files w1 p = Some t' \<and> planes_of t' = planes_of t"
    and "x = Inr c \<Longrightarrow> conn_backend c = Sqlite"
proof -
  define t0 where "t0 = (case sqlite_files w path of
                  None \<Rightarrow> \<lparr> configured_sensors = None, dashboard_planes = None,
                             cfg_seq = 0, dp_seq = 0, objects = None \<rparr>
                | Some t \<Rightarrow> t)"
  define t1 where "t1 = t0\<lparr> configured_sensors :=
                      (case configured_sensors t0 of None \<Rightarrow> Some [] | Some rows \<Rightarrow> Some rows),
                    dashboard_planes :=
                      (case dashboard_planes t0 of None \<Rightarrow> Some [] | Some rows \<Rightarrow> Some rows) \<rparr>"
  have w1: "w1 = w \<or> w1 = w\<lparr> sqlite_files := (sqlite_files w)(path \<mapsto> t1) \<rparr>"
    using assms(1) by (auto simp: open_sqlite_app_state_def Let_def t0_def t1_def split: if_splits)
  show "pg_dbs w1 = pg_dbs w" using w1 by auto
  show "conn_backend c = Sqlite" if "x = Inr c"
    using assms(1) that by (auto simp: open_sqlite_app_state_def Let_def split: if_splits)
  have same: "planes_of t1 = planes_of t0"
    by (auto simp: t1_def planes_of_def split: option.splits)
  show "\<exists>t'. sqlite_files w1 p = Some t' \<and> planes_of t' = planes_of t" if "sqlite_files w p = Some t"
    using that same w1 by (cases "p = path") (auto simp: t0_def)
qed

lemma get_app_state_conn_frame:
  assumes "get_app_state_conn cfg w override = (x, w1)"
  shows "pg_dbs w1 = pg_dbs w"
    and "sqlite_files w p = Some t \<Longrightarrow> \<exists>t'. sqlite_files w1 p = Some t' \<and> planes_of t' = planes_of t"
    and "x = Inr c \<Longrightarrow> conn_backend c = Postgres \<Longrightarrow> w1 = w \<and> pg_dbs w (conn_key c) = Some (conn_tables c)"
proof -
  have cases: "(\<exists>d. override = Some d \<and> d \<noteq> [] \<and> w1 = w
                  \<and> (case get_conn w d of
                        Inl e \<Rightarrow> x = Inl e
                      | Inr t \<Rightarrow> x = Inr \<lparr> conn_backend = Postgres, conn_key = d, conn_tables = t \<rparr>))
               \<or> (\<exists>path. open_sqlite_app_state w path = (x, w1))"
    using assms
    by (auto simp: get_app_state_conn_def Let_def split: option.splits if_splits sum.splits)
  show "pg_dbs w1 = pg_dbs w"
    using cases open_sqlite_frame(1) by blast
  show "\<exists>t'. sqlite_files w1 p = Some t' \<and> planes_of t' = planes_of t" if "sqlite_files w p = Some t"
    using cases that open_sqlite_frame(2) by blast
  show "w1 = w \<and> pg_dbs w (conn_key c) = Some (conn_tables c)"
    if "x = Inr c" "conn_backend c = Postgres"
  proof -
    from cases show ?thesis
    proof
      assume "\<exists>d. override = Some d \<and> d \<noteq> [] \<and> w1 = w
                  \<and> (case get_conn w d of
                        Inl e \<Rightarrow> x = Inl e
                      | Inr t \<Rightarrow> x = Inr \<lparr> conn_backend = Postgres, conn_key = d, conn_tables = t \<rparr>)"
      with that show ?thesis
        by (auto simp: get_conn_def split: option.splits sum.splits)
    next
      assume "\<exists>path. open_sqlite_app_state w path = (x, w1)"
      then obtain path where "open_sqlite_app_state w path = (x, w1)" by blast
      from open_sqlite_frame(3)[OF this that(1)] that(2) show ?thesis by simp
    qed
  qed
qed

lemma remove_dashboard_plane_frame:
  assumes "remove_dashboard_plane cfg w pid ctx = (r, w')"
  shows "pg_dbs w d = Some t \<Longrightarrow>
           \<exists>t'. pg_dbs w' d = Some t' \<and>
                (planes_of t' = planes_of t \<or>
                 planes_of t' = filter (\<lambda>x. \<not> (dashboard_plane_id x = pid \<and> dp_user_id x = user_id ctx))
                                  (planes_of t))"
    and "sqlite_files w p = Some t \<Longrightarrow> \<exists>t'. sqlite_files w' p = Some t' \<and> planes_of t' = planes_of t"
proof -
  obtain x w1 where op: "get_app_state_conn cfg w (app_state_dsn ctx) = (x, w1)"
    by (cases "get_app_state_conn cfg w (app_state_dsn ctx)")
  note fr = get_app_state_conn_frame[OF op]
  let ?P = "\<lambda>w'. (pg_dbs w d = Some t \<longrightarrow>
                 (\<exists>t'. pg_dbs w' d = Some t' \<and>
                   (planes_of t' = planes_of t \<or>
                    planes_of t' = filter (\<lambda>x. \<not> (dashboard_plane_id x = pid \<and> dp_user_id x = user_id ctx))
                                     (planes_of t))))
              \<and> (sqlite_files w p = Some t \<longrightarrow> (\<exists>t'. sqlite_files w' p = Some t' \<and> planes_of t' = planes_of t))"
  have base: "?P w1" using fr(1) fr(2)[of p t] by auto
  have "?P w'"
  proof (cases x)
    case (Inl e)
    with assms op have "w' = w1" by (simp add: remove_dashboard_plane_def Let_def)
    with base show ?thesis by simp
  next
    case (Inr c)
    note opc = op[unfolded Inr]
    show ?thesis
    proof (cases "conn_backend c")
      case Sqlite
      from remove_dashboard_plane_sqlite[OF opc Sqlite, of pid] assms have "w' = w1" by simp
      with base show ?thesis by simp
    next
      case Postgres
      from fr(3)[OF Inr Postgres] have w1: "w1 = w" and at: "pg_dbs w (conn_key c) = Some (conn_tables c)"
        by simp_all
      show ?thesis
      proof (cases "dashboard_planes (conn_tables c)")
        case None
        with remove_dashboard_plane_postgres[OF opc Postgres, of pid] assms have "w' = w1" by simp
        with base show ?thesis by simp
      next
        case (Some drows)
        define c' where "c' = c\<lparr> conn_tables := (conn_tables c)
                       \<lparr> dashboard_planes :=
                           Some (filter (\<lambda>r. \<not> (dashboard_plane_id r = pid \<and> dp_user_id r = user_id ctx))
                                   drows) \<rparr> \<rparr>"
        have w': "w' = commit c' w"
          using remove_dashboard_plane_postgres[OF opc Postgres, of pid] assms Some w1
          by (simp add: c'_def)
        have pl: "planes_of (conn_tables c) = drows" using Some by (simp add: planes_of_def)
        have pl': "planes_of (conn_tables c')
                     = filter (\<lambda>r. \<not> (dashboard_plane_id r = pid \<and> dp_user_id r = user_id ctx)) drows"
          by (simp add: c'_def planes_of_def)
        have pg: "pg_dbs w' = (pg_dbs w)(conn_key c \<mapsto> conn_tables c')"
          and sq: "sqlite_files w' = sqlite_files w"
          using Postgres by (simp_all add: w' commit_def c'_def)
        show ?thesis
        proof (cases "d = conn_key c")
          case True
          with at pl pl' pg sq show ?thesis by auto
        next
          case False
          with pg sq show ?thesis by auto
        qed
      qed
    qed
  qed
  then show "pg_dbs w d = Some t \<Longrightarrow>
           \<exists>t'. pg_dbs w' d = Some t' \<and>
                (planes_of t' = planes_of t \<or>
                 planes_of t' = filter (\<lambda>x. \<not> (dashboard_plane_id x = pid \<and> dp_user_id x = user_id ctx))
                                  (planes_of t))"
    and "sqlite_files w p = Some t \<Longrightarrow> \<exists>t'. sqlite_files w' p = Some t' \<and> planes_of t' = planes_of t"
    by simp_all
qed

lemma remove_dashboard_plane_keeps:
  assumes "remove_dashboard_plane cfg w pid ctx = (r, w')"
      and "e \<in> set (planes_of t)" "dp_user_id e \<noteq> user_id ctx \<or> dashboard_plane_id e \<noteq> pid"
  shows "pg_dbs w d = Some t \<Longrightarrow> \<exists>t'. pg_dbs w' d = Some t' \<and> e \<in> set (planes_of t')"
    and "sqlite_files w p = Some t \<Longrightarrow> \<exists>t'. sqlite_files w' p = Some t' \<and> e \<in> set (planes_of t')"
  using remove_dashboard_plane_frame[OF assms(1), of d t] remove_dashboard_plane_frame(2)[OF assms(1), of p t]
        assms(2,3)
  by auto


subsection \<open>Evaluation on the example databases\<close>

lemma example_uses_sqlite [simp]: "\<not> app_state_uses_sqlite example_config"
  by code_simp

lemma example_open [simp]:
  "get_app_state_conn example_config (example_world t) (Some ''postgresql://a/app'')
     = (Inr \<lparr> conn_backend = Postgres, conn_key = ''postgresql://a/app'', conn_tables = t \<rparr>,
        example_world t)"
  by (simp add: get_app_state_conn_def get_conn_def example_world_def)

lemma example_commit [simp]:
  "commit \<lparr> conn_backend = Postgres, conn_key = ''postgresql://a/app'', conn_tables = t' \<rparr>
     (example_world t) = example_world t'"
  by (simp add: commit_def example_world_def)

lemma example_contexts [simp]:
  "app_state_dsn example_context = Some ''postgresql://a/app''" "user_id example_context = 1"
  "app_state_dsn example_context2 = Some ''postgresql://a/app''" "user_id example_context2 = 2"
  by (simp_all add: example_context_def example_context2_def)

lemma example_open1:
  "get_app_state_conn example_config (example_world t) (app_state_dsn example_context)
     = (Inr \<lparr> conn_backend = Postgres, conn_key = ''postgresql://a/app'', conn_tables = t \<rparr>,
        example_world t)"
  by simp

lemma example_open2:
  "get_app_state_conn example_config (example_world t) (app_state_dsn example_context2)
     = (Inr \<lparr> conn_backend = Postgres, conn_key = ''postgresql://a/app'', conn_tables = t \<rparr>,
        example_world t)"
  by simp

lemma example_no_planes: "no_planes (example_world (example_tables example_sensors [] 0))"
  by (simp add: no_planes_def example_world_def example_tables_def planes_of_def)

lemma example_add_plane:
  "add_dashboard_plane example_config 1 (example_world (example_tables example_sensors [] 0))
      \<lparr> dpc_configured_sensor_id = 6, dpc_position_index = 0 \<rparr> example_context2
     = (Inr (example_plane 1 2 6 0),
        example_world (example_tables example_sensors [example_plane 1 2 6 0] 1))"
  by (simp add: add_dashboard_plane_postgres[OF example_open2] example_tables_def example_sensors_def
        example_sensor_def upsert_plane_def example_plane_def Let_def int4_def)

lemma example_step:
  "world_step example_config (example_world (example_tables example_sensors [] 0))
     (example_world (example_tables example_sensors [example_plane 1 2 6 0] 1))"
  using world_step.add_plane[OF example_add_plane] .

lemma example_names [simp]:
  "cfg_rows \<lparr> conn_backend = Postgres, conn_key = k, conn_tables = t \<rparr>
      (app_state_table app_state_schema_default ''configured_sensors'')
     = (case configured_sensors t of
          None \<Rightarrow> Inl (UndefinedTable ''relation app_sensoriqua.configured_sensors does not exist'')
        | Some rows \<Rightarrow> Inr rows)"
  "dp_rows \<lparr> conn_backend = Postgres, conn_key = k, conn_tables = t \<rparr>
      (app_state_table app_state_schema_default ''dashboard_planes'')
     = (case dashboard_planes t of
          None \<Rightarrow> Inl (UndefinedTable ''relation app_sensoriqua.dashboard_planes does not exist'')
        | Some rows \<Rightarrow> Inr rows)"
  by (simp_all add: postgres_names no_table_def split: option.splits)

lemma example_add_own_plane:
  "add_dashboard_plane example_config 1 (example_world (example_tables example_sensors [] 0))
      \<lparr> dpc_configured_sensor_id = 5, dpc_position_index = 0 \<rparr> example_context
     = (Inr (example_plane 1 1 5 0),
        example_world (example_tables example_sensors [example_plane 1 1 5 0] 1))"
  by (simp add: add_dashboard_plane_postgres[OF example_open1] example_tables_def example_sensors_def
        example_sensor_def upsert_plane_def example_plane_def Let_def int4_def)

lemma example_delete_sensor:
  "delete_configured_sensor example_config 7
      (example_world (example_tables example_sensors [example_plane 1 1 5 0] 1)) 5 example_context
     = (Inr (),
        example_world (example_tables [example_sensor 5 1 False 7, example_sensor 6 2 True 0]
                         [example_plane 1 1 5 0] 1))"
  by (simp add: delete_configured_sensor_def Let_def example_tables_def example_sensors_def
        example_sensor_def)

lemma example_reach_active:
  "rtranclp (world_step example_config) (example_world (example_tables example_sensors [] 0))
     (example_world (example_tables example_sensors [example_plane 1 1 5 0] 1))"
  using world_step.add_plane[OF example_add_own_plane] by blast

lemma example_reach_deleted:
  "rtranclp (world_step example_config) (example_world (example_tables example_sensors [] 0))
     (example_world (example_tables [example_sensor 5 1 False 7, example_sensor 6 2 True 0]
                       [example_plane 1 1 5 0] 1))"
  using example_reach_active world_step.delete_sensor[OF example_delete_sensor]
  by (rule rtranclp.rtrancl_into_rtrancl)

lemma example_store_reach_active:
  "rtranclp store_step (example_world (example_tables example_sensors [] 0))
     (example_world (example_tables example_sensors [example_plane 1 1 5 0] 1))"
  using store_step.under[OF world_step.add_plane[OF example_add_own_plane]] by blast

lemma example_store_reach_deleted:
  "rtranclp store_step (example_world (example_tables example_sensors [] 0))
     (example_world (example_tables [example_sensor 5 1 False 7, example_sensor 6 2 True 0]
                       [example_plane 1 1 5 0] 1))"
  using example_store_reach_active
        store_step.under[OF world_step.delete_sensor[OF example_delete_sensor]]
  by (rule rtranclp.rtrancl_into_rtrancl)

lemma recommended_path_is_default:
  "sqlite_path (example_config\<lparr> APP_STATE_DSN := ''sqlite:///./sensoriqua_state.db'' \<rparr>)
     = Some DEFAULT_APP_STATE_PATH"
  by code_simp

lemma example_reorder_with_strings:
  "reorder_dashboard_planes example_config
      (example_world (example_tables example_sensors [example_plane 1 1 5 0] 1))
      [[(''dashboard_plane_id'', PStr ''1''), (''position_index'', PStr '' 4 '')]] example_context
     = (Inr (), example_world (example_tables example_sensors [example_plane 1 1 5 4] 1))"
proof -
  have "int4in ''1'' = Inr 1" "int4in '' 4 '' = Inr 4"
    by code_simp+
  then show ?thesis
    by (simp add: reorder_dashboard_planes_def Let_def dict_get_def update_position_def
          assigned_int4_def compared_int4_def example_tables_def example_plane_def)
qed

lemma example_message [simp]:
  "contains ''relation app_sensoriqua.configured_sensors does not exist'' ''configured_sensors''"
  by code_simp

lemma find_unique:
  assumes "distinct (map f rows)" "e \<in> set rows" "find (\<lambda>r. f r = f e) rows = Some old"
  shows "old = e"
proof -
  from assms(3) have "old \<in> set rows" "f old = f e"
    by (auto simp: find_Some_iff)
  with assms(1,2) show ?thesis
    by (meson distinct_map inj_onD)
qed

lemma find_exists:
  assumes "e \<in> set rows"
  shows "\<exists>old. find (\<lambda>r. f r = f e) rows = Some old"
  using assms by (cases "find (\<lambda>r. f r = f e) rows") (auto simp: find_None_iff)

lemma map_unique:
  assumes "distinct (map f rows)" "e \<in> set rows"
  shows "map (\<lambda>r. if f r = f e then g r else r) rows = map (\<lambda>r. if r = e then g r else r) rows"
proof (rule map_cong[OF refl])
  fix r assume "r \<in> set rows"
  with assms have "f r = f e \<longleftrightarrow> r = e" by (meson distinct_map inj_onD)
  then show "(if f r = f e then g r else r) = (if r = e then g r else r)" by simp
qed

lemma store_at_commit:
  assumes "conn_backend c' = conn_backend c" "conn_key c' = conn_key c"
  shows "store_at (commit c' w1) c = Some (conn_tables c')"
  using assms by (cases "conn_backend c") (simp_all add: store_at_def commit_def)


lemma remove_dashboard_plane_scoped:
  assumes "no_planes w0" and "rtranclp (world_step cfg) w0 w"
      and "get_app_state_conn cfg w (app_state_dsn ctx) = (Inr c, w1)"
      and "dashboard_planes (conn_tables c) = Some rows"
  shows "(\<forall>e. e \<in> set rows \<and> dashboard_plane_id e = pid \<and> dp_user_id e \<noteq> user_id ctx \<longrightarrow>
            (\<exists>w'. remove_dashboard_plane cfg w pid ctx
                     = (Inl (HTTPException 404 ''Dashboard plane not found''), w')
                 \<and> (\<exists>t'. store_at w' c = Some t' \<and> dashboard_planes t' = Some rows)))
       \<and> (\<exists>r w' t'. remove_dashboard_plane cfg w pid ctx = (r, w')
            \<and> store_at w' c = Some t'
            \<and> dashboard_planes t'
                = Some (filter (\<lambda>x. \<not> (dashboard_plane_id x = pid \<and> dp_user_id x = user_id ctx)) rows)
            \<and> (r = Inr () \<longrightarrow> (\<exists>x \<in> set rows. dashboard_plane_id x = pid \<and> dp_user_id x = user_id ctx)))"
proof -
  have ok: "world_ok w" using assms(2,1) by (rule world_steps_ok)
  have ok1: "world_ok w1" using assms(3) ok by (rule get_app_state_conn_ok(1))
  note st = get_app_state_conn_ok(2)[OF assms(3) ok]
  have planes: "planes_of (conn_tables c) = rows" using assms(4) by (simp add: planes_of_def)
  let ?hit = "\<lambda>x. dashboard_plane_id x = pid \<and> dp_user_id x = user_id ctx"
  show ?thesis
  proof (cases "conn_backend c")
    case Sqlite
    with get_app_state_conn_ok(3)[OF assms(3) ok] planes have "rows = []" by simp
    with remove_dashboard_plane_sqlite[OF assms(3) Sqlite, of pid] st assms(4)
    show ?thesis by auto
  next
    case Postgres
    define c' where "c' = c\<lparr> conn_tables := (conn_tables c)
                       \<lparr> dashboard_planes := Some (filter (\<lambda>x. \<not> ?hit x) rows) \<rparr> \<rparr>"
    have eq: "remove_dashboard_plane cfg w pid ctx
                = (if filter ?hit rows = [] then Inl (HTTPException 404 ''Dashboard plane not found'')
                   else Inr (), commit c' w1)"
      using remove_dashboard_plane_postgres[OF assms(3) Postgres, of pid] assms(4)
      by (simp add: c'_def)
    have at: "store_at (commit c' w1) c = Some (conn_tables c')"
      by (rule store_at_commit) (simp_all add: c'_def)
    have tab: "dashboard_planes (conn_tables c') = Some (filter (\<lambda>x. \<not> ?hit x) rows)"
      by (simp add: c'_def)
    have second: "\<exists>r w' t'. remove_dashboard_plane cfg w pid ctx = (r, w')
            \<and> store_at w' c = Some t'
            \<and> dashboard_planes t' = Some (filter (\<lambda>x. \<not> ?hit x) rows)
            \<and> (r = Inr () \<longrightarrow> (\<exists>x \<in> set rows. ?hit x))"
      using eq at tab by (auto simp: filter_empty_conv)
    have first: "\<exists>w'. remove_dashboard_plane cfg w pid ctx
                     = (Inl (HTTPException 404 ''Dashboard plane not found''), w')
                 \<and> (\<exists>t'. store_at w' c = Some t' \<and> dashboard_planes t' = Some rows)"
      if e: "e \<in> set rows \<and> dashboard_plane_id e = pid \<and> dp_user_id e \<noteq> user_id ctx" for e
    proof -
      have "store_ok (conn_tables c)" using store_at_ok(1)[OF ok1 st] Postgres by simp
      then have dist: "distinct (map dashboard_plane_id rows)"
        using planes by (simp add: store_ok_def)
      have none: "\<not> ?hit x" if "x \<in> set rows" for x
      proof
        assume h: "?hit x"
        with e that dist have "x = e" by (metis distinct_map inj_onD)
        with h e show False by simp
      qed
      then have "filter ?hit rows = []" "filter (\<lambda>x. \<not> ?hit x) rows = rows"
        by (auto simp: filter_empty_conv filter_id_conv)
      with eq at tab show ?thesis by auto
    qed
    from first second show ?thesis by blast
  qed
qed



subsection \<open>Claims\<close>

text \<open>
  Claim C5. When both thresholds of a create body, or of an update body, are numbers with
  \<^verbatim>\<open>min_threshold >= max_threshold\<close> (equal values included), \<open>add_configured_sensor\<close> and
  \<open>update_configured_sensor\<close> answer with status 400 and leave every database as it was:
  the check precedes the opening of the store.
\<close>

theorem C5_threshold_validation:
  "mn \<ge> mx \<longrightarrow>
     (csc_min_threshold body = Some mn \<and> csc_max_threshold body = Some mx
        \<longrightarrow> add_configured_sensor cfg now w body ctx
              = (Inl (HTTPException 400 ''MIN must be less than MAX''), w))
   \<and> (attr (csu_min_threshold ubody) = Some mn \<and> attr (csu_max_threshold ubody) = Some mx
        \<longrightarrow> update_configured_sensor cfg now w sid ubody ctx
              = (Inl (HTTPException 400 ''MIN must be less than MAX''), w))"
  by (simp add: add_configured_sensor_def update_configured_sensor_def min_not_below_max_def
        min_max_error_def)

theorem C5_threshold_validation_witness:
  "add_configured_sensor example_config 0 (example_world example_empty_tables)
       (example_create (Some 5) (Some 5)) example_context
     = (Inl (HTTPException 400 ''MIN must be less than MAX''), example_world example_empty_tables)
   \<and> update_configured_sensor example_config 0 (example_world (example_tables example_sensors [] 0)) 5
       (example_update (Some (Some 50)) (Some (Some 40))) example_context
     = (Inl (HTTPException 400 ''MIN must be less than MAX''),
        example_world (example_tables example_sensors [] 0))"
proof -
  have "(5::real) \<ge> 5" "(50::real) \<ge> 40" by simp_all
  then show ?thesis
    using C5_threshold_validation [of 5 5 "example_create (Some 5) (Some 5)" example_config 0
                 "example_world example_empty_tables" example_context]
          C5_threshold_validation [of 40 50 _ _ _ "example_world (example_tables example_sensors [] 0)" _
                 "example_update (Some (Some 50)) (Some (Some 40))" 5]
    by (simp add: example_create_def example_update_def attr_def)
qed





text \<open>
  Outside the amended claim: under the default configuration (\<^verbatim>\<open>APP_STATE_DSN\<close> unset)
  \<open>add_dashboard_plane\<close> compares \<^verbatim>\<open>is_active\<close> with \<^verbatim>\<open>1\<close> also on a tenant's relational
  store, because it chooses the literal by \<open>app_state_uses_sqlite\<close> alone, where
  \<open>list_dashboard_planes\<close> also tests that the context names no store of its own. The
  database refuses the comparison, for an active sensor with a row as for any other.
\<close>

lemma add_dashboard_plane_default_configuration:
  "app_state_uses_sqlite example_short_config
   \<and> add_dashboard_plane example_short_config 9
        (example_world (example_tables example_sensors [example_plane 1 1 5 0] 1))
        \<lparr> dpc_configured_sensor_id = 5, dpc_position_index = 3 \<rparr> example_context
       = (Inl (DatabaseError ''operator does not exist: boolean = integer''),
          example_world (example_tables example_sensors [example_plane 1 1 5 0] 1))"
proof -
  have u: "app_state_uses_sqlite example_short_config"
    by (simp add: app_state_uses_sqlite_def example_short_config_def)
  have op: "get_app_state_conn example_short_config (example_world t) (app_state_dsn example_context)
     = (Inr \<lparr> conn_backend = Postgres, conn_key = ''postgresql://a/app'', conn_tables = t \<rparr>,
        example_world t)" for t
    by (simp add: get_app_state_conn_def get_conn_def example_world_def)
  show ?thesis
    using u by (simp add: add_dashboard_plane_postgres[OF op] example_tables_def)
qed


text \<open>
  Claim C7. \<open>remove_dashboard_plane\<close> never removes or changes, in any database, a
  dashboard plane of another tenant (or with another id): the entry is still in its table
  afterwards. In every state the handlers reach from databases without dashboard planes,
  the table of the opened store is afterwards the old one without the rows that have the
  requested id and the caller's tenant, the handler succeeds only if there was such a
  row, and when the entry with the requested id belongs to another tenant the handler
  answers with status 404 and the table is as it was.
\<close>

theorem C7_remove_is_tenant_scoped:
  assumes "no_planes w0" and "rtranclp (world_step cfg) w0 w"
      and "remove_dashboard_plane cfg w pid ctx = (r, w')"
  shows "(\<forall>d t e. pg_dbs w d = Some t \<and> e \<in> set (planes_of t)
                 \<and> (dp_user_id e \<noteq> user_id ctx \<or> dashboard_plane_id e \<noteq> pid)
            \<longrightarrow> (\<exists>t'. pg_dbs w' d = Some t' \<and> e \<in> set (planes_of t')))
       \<and> (\<forall>p t e. sqlite_files w p = Some t \<and> e \<in> set (planes_of t)
                 \<and> (dp_user_id e \<noteq> user_id ctx \<or> dashboard_plane_id e \<noteq> pid)
            \<longrightarrow> (\<exists>t'. sqlite_files w' p = Some t' \<and> e \<in> set (planes_of t')))
       \<and> (\<forall>c w1 rows. get_app_state_conn cfg w (app_state_dsn ctx) = (Inr c, w1)
                 \<and> dashboard_planes (conn_tables c) = Some rows
            \<longrightarrow> (\<exists>t'. store_at w' c = Some t'
                      \<and> dashboard_planes t'
                          = Some (filter (\<lambda>x. \<not> (dashboard_plane_id x = pid \<and> dp_user_id x = user_id ctx))
                                    rows))
                \<and> (r = Inr () \<longrightarrow>
                      list_ex (\<lambda>x. dashboard_plane_id x = pid \<and> dp_user_id x = user_id ctx) rows)
                \<and> (list_ex (\<lambda>x. dashboard_plane_id x = pid \<and> dp_user_id x \<noteq> user_id ctx) rows \<longrightarrow>
                      r = Inl (HTTPException 404 ''Dashboard plane not found'')
                      \<and> (\<exists>t'. store_at w' c = Some t' \<and> dashboard_planes t' = Some rows)))"
proof (intro conjI allI impI)
  fix d t e
  assume "pg_dbs w d = Some t \<and> e \<in> set (planes_of t)
                 \<and> (dp_user_id e \<noteq> user_id ctx \<or> dashboard_plane_id e \<noteq> pid)"
  then show "\<exists>t'. pg_dbs w' d = Some t' \<and> e \<in> set (planes_of t')"
    using remove_dashboard_plane_keeps(1)[OF assms(3), of e t d] by blast
next
  fix p t e
  assume "sqlite_files w p = Some t \<and> e \<in> set (planes_of t)
                 \<and> (dp_user_id e \<noteq> user_id ctx \<or> dashboard_plane_id e \<noteq> pid)"
  then show "\<exists>t'. sqlite_files w' p = Some t' \<and> e \<in> set (planes_of t')"
    using remove_dashboard_plane_frame(2)[OF assms(3), of p t] by auto
next
  fix c w1 rows
  assume h: "get_app_state_conn cfg w (app_state_dsn ctx) = (Inr c, w1)
                 \<and> dashboard_planes (conn_tables c) = Some rows"
  then have op: "get_app_state_conn cfg w (app_state_dsn ctx) = (Inr c, w1)"
    and rows: "dashboard_planes (conn_tables c) = Some rows" by simp_all
  note sc = remove_dashboard_plane_scoped[OF assms(1,2) op rows, of pid]
  from sc assms(3)
  show "\<exists>t'. store_at w' c = Some t'
                      \<and> dashboard_planes t'
                          = Some (filter (\<lambda>x. \<not> (dashboard_plane_id x = pid \<and> dp_user_id x = user_id ctx))
                                    rows)"
    by auto
  show "list_ex (\<lambda>x. dashboard_plane_id x = pid \<and> dp_user_id x = user_id ctx) rows" if "r = Inr ()"
    using sc assms(3) that by (auto simp: list_ex_iff)
  {
    assume "list_ex (\<lambda>x. dashboard_plane_id x = pid \<and> dp_user_id x \<noteq> user_id ctx) rows"
    then obtain e where e: "e \<in> set rows \<and> dashboard_plane_id e = pid \<and> dp_user_id e \<noteq> user_id ctx"
      by (auto simp: list_ex_iff)
    with sc assms(3)
    have both: "r = Inl (HTTPException 404 ''Dashboard plane not found'')
                \<and> (\<exists>t'. store_at w' c = Some t' \<and> dashboard_planes t' = Some rows)"
      by auto
    from both show "r = Inl (HTTPException 404 ''Dashboard plane not found'')" by simp
    from both show "\<exists>t'. store_at w' c = Some t' \<and> dashboard_planes t' = Some rows" by simp
  }
qed


theorem C7_remove_is_tenant_scoped_witness:
  "no_planes (example_world (example_tables example_sensors [] 0))
   \<and> add_dashboard_plane example_config 1 (example_world (example_tables example_sensors [] 0))
        \<lparr> dpc_configured_sensor_id = 6, dpc_position_index = 0 \<rparr> example_context2
       = (Inr (example_plane 1 2 6 0),
          example_world (example_tables example_sensors [example_plane 1 2 6 0] 1))
   \<and> dp_user_id (example_plane 1 2 6 0) \<noteq> user_id example_context
   \<and> remove_dashboard_plane example_config
        (example_world (example_tables example_sensors [example_plane 1 2 6 0] 1)) 1 example_context
       = (Inl (HTTPException 404 ''Dashboard plane not found''),
          example_world (example_tables example_sensors [example_plane 1 2 6 0] 1))
   \<and> (\<exists>t'. pg_dbs (example_world (example_tables example_sensors [example_plane 1 2 6 0] 1))
               ''postgresql://a/app'' = Some t'
          \<and> example_plane 1 2 6 0 \<in> set (planes_of t'))"
proof -
  let ?w0 = "example_world (example_tables example_sensors [] 0)"
  let ?t = "example_tables example_sensors [example_plane 1 2 6 0] 1"
  have reach: "rtranclp (world_step example_config) ?w0 (example_world ?t)"
    using example_step by blast
  have other: "dp_user_id (example_plane 1 2 6 0) \<noteq> user_id example_context"
    by (simp add: example_plane_def)
  have res: "remove_dashboard_plane example_config (example_world ?t) 1 example_context
            = (Inl (HTTPException 404 ''Dashboard plane not found''), example_world ?t)"
    by (simp add: remove_dashboard_plane_postgres[OF example_open1] example_tables_def
          example_plane_def)
  have before: "pg_dbs (example_world ?t) ''postgresql://a/app'' = Some ?t
                \<and> example_plane 1 2 6 0 \<in> set (planes_of ?t)
                \<and> (dp_user_id (example_plane 1 2 6 0) \<noteq> user_id example_context
                    \<or> dashboard_plane_id (example_plane 1 2 6 0) \<noteq> 1)"
    using other by (simp add: example_world_def example_tables_def planes_of_def)
  note kept = C7_remove_is_tenant_scoped [OF example_no_planes reach res, THEN conjunct1,
                rule_format, OF before]
  from kept res example_no_planes example_add_plane other show ?thesis by blast
qed

text \<open>
  Claim C8, evaluated on the relational path without the application-state tables. The
  two list handlers return the empty list and \<open>add_configured_sensor\<close> raises the 503
  error that names the remedy; the other five write handlers have no handler for
  \<^verbatim>\<open>UndefinedTable\<close>, and the database's exception leaves them as it is.
\<close>

theorem C8_missing_tables_outcomes:
  "list_configured_sensors example_config (example_world example_empty_tables) example_context
     = (Inr [], example_world example_empty_tables)
   \<and> list_dashboard_planes example_config (example_world example_empty_tables) example_context
     = (Inr [], example_world example_empty_tables)
   \<and> add_configured_sensor example_config 0 (example_world example_empty_tables)
        (example_create (Some 0) (Some 100)) example_context
     = (Inl store_not_initialized, example_world example_empty_tables)
   \<and> update_configured_sensor example_config 0 (example_world example_empty_tables) 5
        (example_update (Some (Some 1)) None) example_context
     = (Inl (UndefinedTable ''relation app_sensoriqua.configured_sensors does not exist''),
        example_world example_empty_tables)
   \<and> delete_configured_sensor example_config 0 (example_world example_empty_tables) 5 example_context
     = (Inl (UndefinedTable ''relation app_sensoriqua.configured_sensors does not exist''),
        example_world example_empty_tables)
   \<and> add_dashboard_plane example_config 0 (example_world example_empty_tables)
        \<lparr> dpc_configured_sensor_id = 5, dpc_position_index = 0 \<rparr> example_context
     = (Inl (UndefinedTable ''relation app_sensoriqua.configured_sensors does not exist''),
        example_world example_empty_tables)
   \<and> remove_dashboard_plane example_config (example_world example_empty_tables) 1 example_context
     = (Inl (UndefinedTable ''relation app_sensoriqua.dashboard_planes does not exist''),
        example_world example_empty_tables)
   \<and> reorder_dashboard_planes example_config (example_world example_empty_tables)
        [[(''dashboard_plane_id'', PInt 1), (''position_index'', PInt 0)]] example_context
     = (Inl (UndefinedTable ''relation app_sensoriqua.dashboard_planes does not exist''),
        example_world example_empty_tables)"
proof -
  let ?W = "example_world example_empty_tables"
  have a: "list_configured_sensors example_config ?W example_context = (Inr [], ?W)"
    by (simp add: list_configured_sensors_def Let_def example_empty_tables_def
          empty_on_undefined_table_def)
  have b: "list_dashboard_planes example_config ?W example_context = (Inr [], ?W)"
    by (simp add: list_dashboard_planes_def Let_def example_empty_tables_def
          empty_on_undefined_table_def)
  have c: "add_configured_sensor example_config 0 ?W (example_create (Some 0) (Some 100)) example_context
             = (Inl store_not_initialized, ?W)"
    by (simp add: add_configured_sensor_def Let_def example_empty_tables_def example_create_def
          min_not_below_max_def insert_configured_sensor_def add_sensor_except_def
          del: contains.simps)
  have d: "update_configured_sensor example_config 0 ?W 5 (example_update (Some (Some 1)) None)
             example_context
             = (Inl (UndefinedTable ''relation app_sensoriqua.configured_sensors does not exist''), ?W)"
    by (simp add: update_configured_sensor_def Let_def example_empty_tables_def example_update_def
          min_not_below_max_def attr_def update_sensor_rows_def)
  have e: "delete_configured_sensor example_config 0 ?W 5 example_context
             = (Inl (UndefinedTable ''relation app_sensoriqua.configured_sensors does not exist''), ?W)"
    by (simp add: delete_configured_sensor_def Let_def example_empty_tables_def)
  have f: "add_dashboard_plane example_config 0 ?W
             \<lparr> dpc_configured_sensor_id = 5, dpc_position_index = 0 \<rparr> example_context
             = (Inl (UndefinedTable ''relation app_sensoriqua.configured_sensors does not exist''), ?W)"
    by (simp add: add_dashboard_plane_def Let_def example_empty_tables_def)
  have g: "remove_dashboard_plane example_config ?W 1 example_context
             = (Inl (UndefinedTable ''relation app_sensoriqua.dashboard_planes does not exist''), ?W)"
    by (simp add: remove_dashboard_plane_def Let_def example_empty_tables_def)
  have h: "reorder_dashboard_planes example_config ?W
             [[(''dashboard_plane_id'', PInt 1), (''position_index'', PInt 0)]] example_context
             = (Inl (UndefinedTable ''relation app_sensoriqua.dashboard_planes does not exist''), ?W)"
    by (simp add: reorder_dashboard_planes_def Let_def example_empty_tables_def dict_get_def
          update_position_def)
  from a b c d e f g h show ?thesis by simp
qed

end
